theory Spec2Isabelle
  imports Complex_Main
begin

section \<open>JavaScript values\<close>

text \<open>
  A preset or a preferences object arrives as JSON, so each of its fields is either absent
  (\<open>undefined\<close> when read), \<open>null\<close>, or a value of the field's type.  Numbers are
  modelled as reals; the one non-real number that the code can compute from such fields is
  \<open>NaN\<close> (for instance \<open>Math.min(1, undefined)\<close>), which gets a constructor of its own.
  Strings are byte strings.  Two library functions whose results are not determined at this
  level are parameters of the model: \<open>String.prototype.toLowerCase\<close>, and the
  double-precision \<open>Math.round(x * 100)\<close>.
\<close>

datatype 'a js = Undefined | Null | Val 'a

datatype jsnum = NaN | Num real

text \<open>Truthiness, as tested by \<open>if (x)\<close>, \<open>!x\<close>, \<open>x || d\<close> and \<open>x && y\<close>.\<close>

fun truthy_str :: "string js \<Rightarrow> bool" where
  "truthy_str (Val s) = (s \<noteq> [])"
| "truthy_str _ = False"

fun truthy_real :: "real js \<Rightarrow> bool" where
  "truthy_real (Val x) = (x \<noteq> 0)"
| "truthy_real _ = False"

fun truthy_bool :: "bool js \<Rightarrow> bool" where
  "truthy_bool (Val b) = b"
| "truthy_bool _ = False"

text \<open>\<open>x || d\<close> for a string field and a string literal \<open>d\<close>.\<close>

fun or_str :: "string js \<Rightarrow> string \<Rightarrow> string" where
  "or_str (Val s) d = (if s \<noteq> [] then s else d)"
| "or_str _ d = d"

text \<open>\<open>x || d\<close> and \<open>x ?? d\<close> for a numeric field and a numeric literal \<open>d\<close>.\<close>

fun or_real :: "real js \<Rightarrow> real \<Rightarrow> real" where
  "or_real (Val x) d = (if x \<noteq> 0 then x else d)"
| "or_real _ d = d"

fun nullish_real :: "real js \<Rightarrow> real \<Rightarrow> real" where
  "nullish_real (Val x) d = x"
| "nullish_real _ d = d"

fun nullish_bool :: "bool js \<Rightarrow> bool \<Rightarrow> bool" where
  "nullish_bool (Val b) d = b"
| "nullish_bool _ d = d"

text \<open>The string of a truthy string field (and the empty string otherwise).\<close>

fun str_of :: "string js \<Rightarrow> string" where
  "str_of (Val s) = s"
| "str_of _ = []"

fun is_val :: "'a js \<Rightarrow> bool" where
  "is_val (Val x) = True"
| "is_val _ = False"

text \<open>A value that replaces another unless it is \<open>undefined\<close>.\<close>

definition pick :: "'a js \<Rightarrow> 'a js \<Rightarrow> 'a js" where
  "pick src tgt = (if src = Undefined then tgt else src)"

text \<open>A guarded statement \<open>if (c) f(...)\<close> on a state.\<close>

definition do_if :: "bool \<Rightarrow> ('s \<Rightarrow> 's) \<Rightarrow> 's \<Rightarrow> 's" where
  "do_if c f s = (if c then f s else s)"

text \<open>The conversion to a number that \<open>Math.min\<close>, \<open>Math.max\<close> and \<open>*\<close> apply to an argument.\<close>

fun to_number :: "real js \<Rightarrow> jsnum" where
  "to_number Undefined = NaN"
| "to_number Null = Num 0"
| "to_number (Val x) = Num x"

text \<open>\<open>Math.max(lo, Math.min(hi, x))\<close>: a \<open>NaN\<close> argument gives \<open>NaN\<close>.\<close>

fun clamp :: "real \<Rightarrow> real \<Rightarrow> jsnum \<Rightarrow> jsnum" where
  "clamp lo hi NaN = NaN"
| "clamp lo hi (Num x) = Num (max lo (min hi x))"

text \<open>\<open>Math.round\<close> on a real: the nearest integer, halves rounded up.\<close>

definition math_round :: "real \<Rightarrow> int" where
  "math_round x = \<lfloor>x + 1 / 2\<rfloor>"

text \<open>\<open>s.split('.')\<close> for a one-character separator.\<close>

fun split_on :: "char \<Rightarrow> string \<Rightarrow> string list" where
  "split_on c [] = [[]]"
| "split_on c (x # xs) =
     (if x = c then [] # split_on c xs
      else (case split_on c xs of
              [] \<Rightarrow> [[x]]
            | y # ys \<Rightarrow> (x # y) # ys))"

text \<open>
  A source location handed to a DOM element: the path itself, or what Tauri's
  \<open>convertFileSrc\<close> makes of it (an external function, kept symbolic).
\<close>

datatype url = Path string | ConvertFileSrc string

text \<open>
  A CSS paint written to \<open>style.background\<close>: not yet written, \<open>'transparent'\<close>, or the
  string that \<open>hexToRgba(hex, opacity)\<close> builds from its two arguments (kept symbolic: it is a
  pure function of them and is never read back).
\<close>

datatype paint = Unstyled | Transparent | HexToRgba string jsnum


section \<open>OverlayManager (overlay.js)\<close>

text \<open>
  The DOM element \<open>overlay-layer\<close> is taken to exist, as the page declares it; only its
  \<open>style.background\<close> is written.
\<close>

record overlay_state =
  overlay_background :: paint
  currentColor :: "string js"
  currentOpacity :: jsnum

definition new_OverlayManager :: overlay_state where
  "new_OverlayManager =
     \<lparr>overlay_background = Unstyled, currentColor = Null, currentOpacity = Num 0\<rparr>"

definition clearTint :: "overlay_state \<Rightarrow> overlay_state" where
  "clearTint ov =
     ov\<lparr>overlay_background := Transparent, currentColor := Null, currentOpacity := Num 0\<rparr>"

text \<open>
  \<open>setTint(color, opacity)\<close>.  A falsy colour clears the tint.  Otherwise the colour is a
  non-empty string, on which \<open>hexToRgba\<close> cannot throw.  Numeric parameters of the
  setters are given as the number the argument converts to (\<open>to_number\<close> at the call sites
  that pass a JSON field).
\<close>

fun setTint :: "string js \<Rightarrow> jsnum \<Rightarrow> overlay_state \<Rightarrow> overlay_state" where
  "setTint (Val color) opacity ov =
     (if color = [] then clearTint ov
      else (let opacity' = clamp 0 1 opacity
            in ov\<lparr>overlay_background := HexToRgba color opacity',
                  currentColor := Val color,
                  currentOpacity := opacity'\<rparr>))"
| "setTint _ opacity ov = clearTint ov"

definition getCurrentTint :: "overlay_state \<Rightarrow> string js \<times> jsnum" where
  "getCurrentTint ov = (currentColor ov, currentOpacity ov)"


section \<open>BackgroundManager (background.js)\<close>

definition IMAGE_EXTENSIONS :: "string list" where
  "IMAGE_EXTENSIONS = [''jpg'', ''jpeg'', ''png'', ''gif'', ''webp'', ''bmp'']"

definition VIDEO_EXTENSIONS :: "string list" where
  "VIDEO_EXTENSIONS = [''mp4'', ''webm'', ''mov'', ''avi'', ''mkv'']"

datatype media_type = Image | Video

text \<open>
  The three media elements, reduced to the properties the manager writes.  \<open>playing\<close> records
  the last of \<open>play()\<close> and \<open>pause()\<close>; a refused autoplay is caught and logged by the source
  and changes nothing else.
\<close>

record image_el =
  img_src :: url
  img_active :: bool

record video_el =
  vid_src :: url
  vid_active :: bool
  vid_muted :: bool
  vid_playing :: bool

record audio_el =
  aud_src :: url
  aud_loop :: bool
  aud_volume :: real
  aud_muted :: bool
  aud_playing :: bool

record background_state =
  bgImage :: image_el
  bgVideo :: video_el
  currentMedia :: "string js"
  currentType :: "media_type option"
  muted :: bool
  bgAudio :: audio_el
  musicPath :: "string js"
  musicMuted :: bool

text \<open>The constructor, given the two elements of the page; \<open>new Audio()\<close> starts silent.\<close>

definition new_BackgroundManager :: "image_el \<Rightarrow> video_el \<Rightarrow> background_state" where
  "new_BackgroundManager img vid =
     \<lparr>bgImage = img, bgVideo = vid, currentMedia = Null, currentType = None, muted = True,
      bgAudio = \<lparr>aud_src = Path [], aud_loop = True, aud_volume = 0.5,
                 aud_muted = False, aud_playing = False\<rparr>,
      musicPath = Null, musicMuted = True\<rparr>"

text \<open>
  \<open>filePath.split('.').pop().toLowerCase()\<close>; the first argument, here and below, is
  the platform's \<open>toLowerCase\<close>.
\<close>

definition file_ext :: "(string \<Rightarrow> string) \<Rightarrow> string \<Rightarrow> string" where
  "file_ext lc filePath = lc (last (split_on (CHR ''.'') filePath))"

definition getMediaType :: "(string \<Rightarrow> string) \<Rightarrow> string \<Rightarrow> media_type option" where
  "getMediaType lc filePath =
     (let ext = file_ext lc filePath
      in if ext \<in> set IMAGE_EXTENSIONS then Some Image
         else if ext \<in> set VIDEO_EXTENSIONS then Some Video
         else None)"

definition toAssetUrl :: "bool \<Rightarrow> string \<Rightarrow> url" where
  "toAssetUrl isTauri filePath = (if isTauri then ConvertFileSrc filePath else Path filePath)"

definition hideAll :: "background_state \<Rightarrow> background_state" where
  "hideAll bg =
     bg\<lparr>bgImage := (bgImage bg)\<lparr>img_active := False, img_src := Path []\<rparr>,
        bgVideo := (bgVideo bg)\<lparr>vid_active := False, vid_playing := False, vid_src := Path []\<rparr>\<rparr>"

definition clearMedia :: "background_state \<Rightarrow> background_state" where
  "clearMedia bg = (hideAll bg)\<lparr>currentMedia := Null, currentType := None\<rparr>"

text \<open>
  \<open>setMedia(filePath)\<close>; the second argument is the module's \<open>isTauri\<close> flag.  A falsy path
  clears, an unsupported extension returns early (after a console warning, which is not
  part of the state).
\<close>

fun setMedia ::
    "(string \<Rightarrow> string) \<Rightarrow> bool \<Rightarrow> string js \<Rightarrow> background_state \<Rightarrow> background_state" where
  "setMedia lc isTauri (Val filePath) bg =
     (if filePath = [] then clearMedia bg
      else (case getMediaType lc filePath of
              None \<Rightarrow> bg
            | Some ty \<Rightarrow>
                (let bg1 = hideAll bg;
                     u = toAssetUrl isTauri filePath;
                     bg2 = bg1\<lparr>currentMedia := Val filePath, currentType := Some ty\<rparr>
                 in (case ty of
                       Image \<Rightarrow> bg2\<lparr>bgImage := (bgImage bg2)\<lparr>img_src := u, img_active := True\<rparr>\<rparr>
                     | Video \<Rightarrow> bg2\<lparr>bgVideo := (bgVideo bg2)\<lparr>vid_src := u, vid_muted := muted bg2,
                                                            vid_active := True, vid_playing := True\<rparr>\<rparr>))))"
| "setMedia lc isTauri _ bg = clearMedia bg"

definition setMuted :: "bool \<Rightarrow> background_state \<Rightarrow> background_state" where
  "setMuted m bg = bg\<lparr>muted := m, bgVideo := (bgVideo bg)\<lparr>vid_muted := m\<rparr>\<rparr>"

definition getCurrentMedia :: "background_state \<Rightarrow> string js \<times> media_type option" where
  "getCurrentMedia bg = (currentMedia bg, currentType bg)"

definition clearMusic :: "background_state \<Rightarrow> background_state" where
  "clearMusic bg =
     bg\<lparr>bgAudio := (bgAudio bg)\<lparr>aud_playing := False, aud_src := Path []\<rparr>, musicPath := Null\<rparr>"

fun setMusic :: "bool \<Rightarrow> string js \<Rightarrow> background_state \<Rightarrow> background_state" where
  "setMusic isTauri (Val filePath) bg =
     (if filePath = [] then clearMusic bg
      else bg\<lparr>musicPath := Val filePath,
              bgAudio := (bgAudio bg)\<lparr>aud_src := toAssetUrl isTauri filePath,
                                      aud_muted := musicMuted bg,
                                      aud_playing := (if \<not> musicMuted bg then True
                                                      else aud_playing (bgAudio bg))\<rparr>\<rparr>)"
| "setMusic isTauri _ bg = clearMusic bg"

text \<open>\<open>setMusicVolume(volume)\<close> for a finite number (0 to 100 from the slider).\<close>

definition setMusicVolume :: "real \<Rightarrow> background_state \<Rightarrow> background_state" where
  "setMusicVolume v bg = bg\<lparr>bgAudio := (bgAudio bg)\<lparr>aud_volume := max 0 (min 1 (v / 100))\<rparr>\<rparr>"

definition setMusicMuted :: "bool \<Rightarrow> background_state \<Rightarrow> background_state" where
  "setMusicMuted m bg =
     bg\<lparr>musicMuted := m,
        bgAudio := (bgAudio bg)\<lparr>aud_muted := m,
                                aud_playing := (if \<not> m \<and> truthy_str (musicPath bg) then True
                                                else aud_playing (bgAudio bg))\<rparr>\<rparr>"

record music_info =
  mi_path :: "string js"
  mi_volume :: int
  mi_muted :: bool

definition getCurrentMusic :: "background_state \<Rightarrow> music_info" where
  "getCurrentMusic bg =
     \<lparr>mi_path = musicPath bg,
      mi_volume = math_round (aud_volume (bgAudio bg) * 100),
      mi_muted = musicMuted bg\<rparr>"


section \<open>EpubReader (reader.js)\<close>

text \<open>
  The rendering engine (epub.js) is an external collaborator.  Every call the reader makes on
  a rendition is recorded, in order, in \<open>surface_log\<close>; a rendition itself is reduced to the
  position it reports as \<open>currentLocation()?.start?.cfi\<close>.
\<close>

datatype js_error = TypeError | Rejected

text \<open>
  How a call ends: it returns, or it throws with the state as the statements before the
  throw left it.
\<close>

datatype 's completion = Normal 's | Throws js_error 's

text \<open>The state a call has ended in, returned or thrown.\<close>

fun state_of :: "'s completion \<Rightarrow> 's" where
  "state_of (Normal s) = s"
| "state_of (Throws e s) = s"

datatype surface_op =
    RenditionDestroy
  | RenderTo string "string option"
  | ThemesDefault bool "string js" "string js"
  | ThemesOverride string string
  | ThemesFontSize jsnum
  | Display "string option"

record rendition =
  rn_cfi :: "string option"

record container_el =
  cn_background :: paint
  cn_glass :: bool
  cn_backdropFilter :: "jsnum option"
  cn_scroll_mode :: bool
  cn_paged_mode :: bool

record reader_state =
  container :: container_el
  book :: bool
  rendition :: "rendition option"
  opacity :: jsnum
  backgroundColor :: string
  textColor :: string
  glassmorphism :: "bool js"
  blur :: jsnum
  scrollbarTrack :: "string js"
  scrollbarThumb :: "string js"
  fontFamily :: "string js"
  fontSize :: jsnum
  flow :: string
  css_scrollbar_track :: "string js"
  css_scrollbar_thumb :: "string js"
  css_active_scrollbar_thumb :: "string js"
  surface_log :: "surface_op list"

text \<open>The constructor: no book, no rendition, the defaults of the source.\<close>

definition new_EpubReader :: "container_el \<Rightarrow> reader_state" where
  "new_EpubReader c =
     \<lparr>container = c, book = False, rendition = None,
      opacity = Num 0.95, backgroundColor = ''#FFFFFF'', textColor = ''#1a1a1a'',
      glassmorphism = Val False, blur = Num 12,
      scrollbarTrack = Val ''transparent'',
      scrollbarThumb = Val ''rgba(255, 255, 255, 0.25)'',
      fontFamily = Val ''serif'', fontSize = Num 18, flow = ''paginated'',
      css_scrollbar_track = Undefined, css_scrollbar_thumb = Undefined,
      css_active_scrollbar_thumb = Undefined,
      surface_log = []\<rparr>"

definition log_op :: "surface_op \<Rightarrow> reader_state \<Rightarrow> reader_state" where
  "log_op x rd = rd\<lparr>surface_log := surface_log rd @ [x]\<rparr>"

definition updateContainerStyle :: "reader_state \<Rightarrow> reader_state" where
  "updateContainerStyle rd =
     rd\<lparr>container := (container rd)
          \<lparr>cn_background := HexToRgba (backgroundColor rd) (opacity rd),
           cn_glass := truthy_bool (glassmorphism rd),
           cn_backdropFilter := (if truthy_bool (glassmorphism rd) then Some (blur rd) else None)\<rparr>\<rparr>"

definition getRenderOptions :: "reader_state \<Rightarrow> string \<times> string option" where
  "getRenderOptions rd =
     (if flow rd = ''scrolled'' then (''scrolled-doc'', Some ''default'') else (''paginated'', None))"

definition applyIframeStyles :: "reader_state \<Rightarrow> reader_state" where
  "applyIframeStyles rd =
     (if rendition rd = None then rd
      else log_op (ThemesDefault (flow rd = ''scrolled'') (scrollbarTrack rd) (scrollbarThumb rd)) rd)"

definition applyContainerMode :: "reader_state \<Rightarrow> reader_state" where
  "applyContainerMode rd =
     (if flow rd = ''scrolled''
      then rd\<lparr>container := (container rd)\<lparr>cn_scroll_mode := True, cn_paged_mode := False\<rparr>\<rparr>
      else rd\<lparr>container := (container rd)\<lparr>cn_paged_mode := True, cn_scroll_mode := False\<rparr>\<rparr>)"

definition setOpacity :: "jsnum \<Rightarrow> reader_state \<Rightarrow> reader_state" where
  "setOpacity x rd = updateContainerStyle (rd\<lparr>opacity := clamp 0 1 x\<rparr>)"

definition setBackgroundColor :: "string \<Rightarrow> reader_state \<Rightarrow> reader_state" where
  "setBackgroundColor color rd = updateContainerStyle (rd\<lparr>backgroundColor := color\<rparr>)"

definition setTextColor :: "string \<Rightarrow> reader_state \<Rightarrow> reader_state" where
  "setTextColor color rd =
     (let rd1 = rd\<lparr>textColor := color\<rparr>
      in if rendition rd1 \<noteq> None then log_op (ThemesOverride ''color'' color) rd1 else rd1)"

definition setGlassmorphism :: "bool js \<Rightarrow> reader_state \<Rightarrow> reader_state" where
  "setGlassmorphism enabled rd = updateContainerStyle (rd\<lparr>glassmorphism := enabled\<rparr>)"

definition setBlur :: "jsnum \<Rightarrow> reader_state \<Rightarrow> reader_state" where
  "setBlur px rd = updateContainerStyle (rd\<lparr>blur := clamp 0 40 px\<rparr>)"

text \<open>
  \<open>setScrollbarColors(track, thumb)\<close>.  An argument other than \<open>undefined\<close> is stored, so a
  \<open>null\<close> thumb is stored too; \<open>hoverThumb.startsWith\<close> then throws a TypeError, after the
  two fields and two of the three CSS variables have been written.
\<close>

definition hoverThumb :: "string \<Rightarrow> string" where
  "hoverThumb thumb =
     (if take 1 thumb = ''#'' \<and> length thumb = 7 then thumb @ ''dd'' else thumb)"

definition setScrollbarColors ::
    "string js \<Rightarrow> string js \<Rightarrow> reader_state \<Rightarrow> reader_state completion" where
  "setScrollbarColors track thumb rd =
     (let rd1 = do_if (track \<noteq> Undefined) (\<lambda>x. x\<lparr>scrollbarTrack := track\<rparr>) rd;
          rd2 = do_if (thumb \<noteq> Undefined) (\<lambda>x. x\<lparr>scrollbarThumb := thumb\<rparr>) rd1;
          rd3 = rd2\<lparr>css_scrollbar_track := scrollbarTrack rd2,
                    css_scrollbar_thumb := scrollbarThumb rd2\<rparr>
      in (case scrollbarThumb rd3 of
            Val t \<Rightarrow>
              Normal (applyIframeStyles (rd3\<lparr>css_active_scrollbar_thumb := Val (hoverThumb t)\<rparr>))
          | _ \<Rightarrow> Throws TypeError rd3))"

definition familyMap :: "(string \<times> string) list" where
  "familyMap =
     [(''serif'', ''Georgia, 'Times New Roman', serif''),
      (''sans-serif'', ''-apple-system, BlinkMacSystemFont, 'Segoe UI', Roboto, sans-serif''),
      (''monospace'', '''Courier New', Consolas, monospace'')]"

text \<open>\<open>familyMap[family] || familyMap['serif']\<close>, on the map's own three keys.\<close>

definition family_css :: "string js \<Rightarrow> string" where
  "family_css family =
     (case family of
        Val f \<Rightarrow> (case map_of familyMap f of
                    Some css \<Rightarrow> css
                  | None \<Rightarrow> ''Georgia, 'Times New Roman', serif'')
      | _ \<Rightarrow> ''Georgia, 'Times New Roman', serif'')"

definition setFontFamily :: "string js \<Rightarrow> reader_state \<Rightarrow> reader_state" where
  "setFontFamily family rd =
     (let rd1 = rd\<lparr>fontFamily := family\<rparr>
      in if rendition rd1 \<noteq> None
         then log_op (ThemesOverride ''font-family'' (family_css family)) rd1 else rd1)"

definition setFontSize :: "jsnum \<Rightarrow> reader_state \<Rightarrow> reader_state" where
  "setFontSize sz rd =
     (let rd1 = rd\<lparr>fontSize := clamp 12 32 sz\<rparr>
      in if rendition rd1 \<noteq> None then log_op (ThemesFontSize (fontSize rd1)) rd1 else rd1)"

text \<open>
  \<open>setFlow(flow)\<close>.  The function is \<open>async\<close>, but its only \<open>await\<close> is on its last
  statement, so a caller that does not wait for it still sees every effect below.
\<close>

definition setFlow :: "string \<Rightarrow> reader_state \<Rightarrow> reader_state" where
  "setFlow fl rd =
     (let rd1 = rd\<lparr>flow := fl\<rparr>
      in (case rendition rd1 of
            None \<Rightarrow> rd1
          | Some rn \<Rightarrow>
              if \<not> book rd1 then rd1
              else
                (let location = rn_cfi rn;
                     rd2 = log_op RenditionDestroy rd1;
                     opts = getRenderOptions rd2;
                     rd3 = log_op (RenderTo (fst opts) (snd opts))
                             (rd2\<lparr>rendition := Some \<lparr>rn_cfi = None\<rparr>\<rparr>);
                     rd4 = applyContainerMode (applyIframeStyles rd3);
                     rd5 = setFontFamily (fontFamily rd4) rd4;
                     rd6 = setFontSize (fontSize rd5) rd5;
                     rd7 = setTextColor (textColor rd6) rd6;
                     rd8 = updateContainerStyle rd7
                 in log_op (Display location) (rd8\<lparr>rendition := Some \<lparr>rn_cfi = location\<rparr>\<rparr>))))"

text \<open>The appearance fields of the reader, as one tuple.\<close>

definition appearance ::
    "reader_state \<Rightarrow> jsnum \<times> string \<times> string \<times> string js \<times> jsnum \<times> string \<times> bool js \<times> jsnum
       \<times> string js \<times> string js" where
  "appearance rd =
     (opacity rd, backgroundColor rd, textColor rd, fontFamily rd, fontSize rd, flow rd,
      glassmorphism rd, blur rd, scrollbarTrack rd, scrollbarThumb rd)"


section \<open>Presets, preferences and the persistence boundary\<close>

text \<open>
  A preset as the JSON object the code reads.  A sub-object is \<open>None\<close> when it is absent or
  \<open>null\<close> (both fail \<open>if (preset.background)\<close>); a field of a sub-object is a JSON field.
\<close>

record background_spec =
  bg_type :: "string js"
  bg_path :: "string js"

record overlay_spec =
  ov_color :: "string js"
  ov_opacity :: "real js"

record reader_spec =
  r_opacity :: "real js"
  r_backgroundColor :: "string js"
  r_textColor :: "string js"
  r_fontFamily :: "string js"
  r_fontSize :: "real js"
  r_readingMode :: "string js"
  r_glassmorphism :: "bool js"
  r_glassBlur :: "real js"
  r_scrollbarTrack :: "string js"
  r_scrollbarThumb :: "string js"

record preset =
  preset_version :: string
  preset_name :: string
  preset_author :: string
  preset_description :: string
  preset_background :: "background_spec option"
  preset_overlay :: "overlay_spec option"
  preset_reader :: "reader_spec option"

text \<open>
  \<open>currentPrefs\<close>.  The same record serves for the partial object that
  \<open>extractPrefsFromPreset\<close> builds: there \<open>Undefined\<close> marks a key that was not set.
\<close>

record prefs =
  p_fontFamily :: "string js"
  p_fontSize :: "real js"
  p_lastPreset :: "string js"
  p_readingMode :: "string js"
  p_textColor :: "string js"
  p_containerColor :: "string js"
  p_containerOpacity :: "real js"
  p_glassmorphism :: "bool js"
  p_glassBlur :: "real js"
  p_bgMediaPath :: "string js"
  p_bgAudioMuted :: "bool js"
  p_bgMusicPath :: "string js"
  p_bgMusicVolume :: "real js"
  p_bgMusicMuted :: "bool js"
  p_scrollbarTrack :: "string js"
  p_scrollbarThumb :: "string js"

text \<open>The initial value of \<open>currentPrefs\<close> in main.js.\<close>

definition default_prefs :: prefs where
  "default_prefs =
     \<lparr>p_fontFamily = Val ''serif'', p_fontSize = Val 18, p_lastPreset = Val ''Cozy Reading'',
      p_readingMode = Val ''paginated'', p_textColor = Val ''#1a1a1a'',
      p_containerColor = Val ''#FFFFFF'', p_containerOpacity = Val 95,
      p_glassmorphism = Val False, p_glassBlur = Val 12, p_bgMediaPath = Null,
      p_bgAudioMuted = Val True, p_bgMusicPath = Null, p_bgMusicVolume = Val 50,
      p_bgMusicMuted = Val True, p_scrollbarTrack = Val ''#1a1a1a'',
      p_scrollbarThumb = Val ''#4a9eff''\<rparr>"

text \<open>
  The persistence boundary (the Tauri backend behind \<open>invoke\<close>) is not part of the sources;
  it is a parameter.  Each command either rejects (\<open>None\<close>) or resolves to its value;
  \<open>delete_preset\<close> resolves to the boundary as it is after the deletion.
\<close>

datatype backend = Backend
  (get_preferences: "prefs option")
  (list_presets: "string list option")
  (load_preset: "string \<Rightarrow> preset option")
  (get_app_dir: "string option")
  (delete_preset: "string \<Rightarrow> backend option")

text \<open>
  The application: the three state holders, the PresetManager's two fields
  (\<open>currentPreset\<close>, \<open>presets\<close>), \<open>currentPrefs\<close>, the toasts shown so far, and the
  environment: \<open>isTauri\<close> (one flag for the modules' copies of it), the backend, and the
  two library functions, \<open>toLowerCase\<close> and \<open>round100\<close> (\<open>Math.round(x * 100)\<close>).
\<close>

record app =
  toLowerCase :: "string \<Rightarrow> string"
  round100 :: "real \<Rightarrow> real"
  isTauri :: bool
  backend :: backend
  reader :: reader_state
  bgManager :: background_state
  overlayManager :: overlay_state
  currentPreset :: "preset option"
  presets :: "preset list"
  currentPrefs :: prefs
  toasts :: "(string \<times> string) list"

definition showToast :: "string \<Rightarrow> string \<Rightarrow> app \<Rightarrow> app" where
  "showToast message ty w = w\<lparr>toasts := toasts w @ [(message, ty)]\<rparr>"


section \<open>PresetManager (presets.js)\<close>

definition getFallbackPresets :: "preset list" where
  "getFallbackPresets =
     [\<lparr>preset_version = ''2.0'', preset_name = ''Cozy Reading'', preset_author = ''EPUB Team'',
       preset_description = ''Warm, comfortable reading atmosphere'',
       preset_background = Some \<lparr>bg_type = Val ''none'', bg_path = Null\<rparr>,
       preset_overlay = Some \<lparr>ov_color = Val ''#8B4513'', ov_opacity = Val 0.2\<rparr>,
       preset_reader = Some
         \<lparr>r_opacity = Val 0.92, r_backgroundColor = Val ''#FFF8DC'',
          r_textColor = Val ''#3e2723'', r_fontFamily = Val ''serif'', r_fontSize = Val 18,
          r_readingMode = Val ''paginated'', r_glassmorphism = Val False, r_glassBlur = Val 12,
          r_scrollbarTrack = Val ''#1a1a1a'', r_scrollbarThumb = Val ''#8B4513''\<rparr>\<rparr>,
      \<lparr>preset_version = ''2.0'', preset_name = ''Focus Mode'', preset_author = ''EPUB Team'',
       preset_description = ''Minimal distraction, maximum concentration'',
       preset_background = Some \<lparr>bg_type = Val ''none'', bg_path = Null\<rparr>,
       preset_overlay = Some \<lparr>ov_color = Val ''#000000'', ov_opacity = Val 0\<rparr>,
       preset_reader = Some
         \<lparr>r_opacity = Val 1.0, r_backgroundColor = Val ''#FFFFFF'',
          r_textColor = Val ''#1a1a1a'', r_fontFamily = Val ''sans-serif'', r_fontSize = Val 18,
          r_readingMode = Val ''paginated'', r_glassmorphism = Val False, r_glassBlur = Val 0,
          r_scrollbarTrack = Val ''#f0f0f0'', r_scrollbarThumb = Val ''#999999''\<rparr>\<rparr>,
      \<lparr>preset_version = ''2.0'', preset_name = ''Night Reading'', preset_author = ''EPUB Team'',
       preset_description = ''Gentle on the eyes for late-night reading'',
       preset_background = Some \<lparr>bg_type = Val ''none'', bg_path = Null\<rparr>,
       preset_overlay = Some \<lparr>ov_color = Val ''#1a1a2e'', ov_opacity = Val 0.4\<rparr>,
       preset_reader = Some
         \<lparr>r_opacity = Val 0.85, r_backgroundColor = Val ''#2d2d2d'',
          r_textColor = Val ''#e0e0e0'', r_fontFamily = Val ''serif'', r_fontSize = Val 20,
          r_readingMode = Val ''paginated'', r_glassmorphism = Val False, r_glassBlur = Val 8,
          r_scrollbarTrack = Val ''#1a1a1a'', r_scrollbarThumb = Val ''#555555''\<rparr>\<rparr>]"

text \<open>
  \<open>loadPresets()\<close>.  Without a backend, or when \<open>list_presets\<close> rejects, the fallback list;
  otherwise the presets of the listed names that load, in the listed order.
\<close>

definition loadPresets :: "app \<Rightarrow> app" where
  "loadPresets w =
     (if \<not> isTauri w then w\<lparr>presets := getFallbackPresets\<rparr>
      else (case list_presets (backend w) of
              None \<Rightarrow> w\<lparr>presets := getFallbackPresets\<rparr>
            | Some presetNames \<Rightarrow>
                w\<lparr>presets := List.map_filter (load_preset (backend w)) presetNames\<rparr>))"

definition getPresets :: "app \<Rightarrow> preset list" where
  "getPresets w = filter (\<lambda>p. preset_name p \<noteq> ''_last_session'') (presets w)"

text \<open>The three steps of the \<open>try\<close> block of \<open>applyPreset\<close>, each on its state holder.\<close>

definition apply_background :: "background_spec \<Rightarrow> app \<Rightarrow> app completion" where
  "apply_background b w =
     (if bg_type b = Val ''media'' \<and> truthy_str (bg_path b)
      then Normal (w\<lparr>bgManager := setMedia (toLowerCase w) (isTauri w) (bg_path b) (bgManager w)\<rparr>)
      else if bg_type b = Val ''image'' \<and> truthy_str (bg_path b)
      then (if isTauri w
            then (case get_app_dir (backend w) of
                    None \<Rightarrow> Throws Rejected w
                  | Some appDir \<Rightarrow>
                      (case bg_path b of
                         Val path \<Rightarrow>
                           Normal (w\<lparr>bgManager :=
                                      setMedia (toLowerCase w) (isTauri w)
                                        (Val (appDir @ ''/'' @ path))
                                        (bgManager w)\<rparr>)
                       | _ \<Rightarrow> Normal w))
            else Normal (w\<lparr>bgManager := setMedia (toLowerCase w) (isTauri w) (bg_path b) (bgManager w)\<rparr>))
      else Normal (w\<lparr>bgManager := clearMedia (bgManager w)\<rparr>))"

definition apply_overlay :: "overlay_spec \<Rightarrow> app \<Rightarrow> app" where
  "apply_overlay ov w =
     w\<lparr>overlayManager := setTint (ov_color ov) (to_number (ov_opacity ov)) (overlayManager w)\<rparr>"

definition apply_reader :: "reader_spec \<Rightarrow> reader_state \<Rightarrow> reader_state completion" where
  "apply_reader r rd =
     (let rd1 = do_if (r_opacity r \<noteq> Undefined) (setOpacity (to_number (r_opacity r))) rd;
          rd2 = do_if (truthy_str (r_backgroundColor r))
                  (setBackgroundColor (str_of (r_backgroundColor r))) rd1;
          rd3 = do_if (truthy_str (r_textColor r)) (setTextColor (str_of (r_textColor r))) rd2;
          rd4 = do_if (truthy_str (r_fontFamily r)) (setFontFamily (r_fontFamily r)) rd3;
          rd5 = do_if (truthy_real (r_fontSize r)) (setFontSize (to_number (r_fontSize r))) rd4;
          rd6 = do_if (truthy_str (r_readingMode r)) (setFlow (str_of (r_readingMode r))) rd5;
          rd7 = do_if (r_glassmorphism r \<noteq> Undefined) (setGlassmorphism (r_glassmorphism r)) rd6;
          rd8 = do_if (r_glassBlur r \<noteq> Undefined) (setBlur (to_number (r_glassBlur r))) rd7
      in if truthy_str (r_scrollbarTrack r) \<or> truthy_str (r_scrollbarThumb r)
         then setScrollbarColors (r_scrollbarTrack r) (r_scrollbarThumb r) rd8
         else Normal rd8)"

text \<open>
  The \<open>try\<close> block with its \<open>catch\<close>: on a throw the toast is shown and \<open>false\<close> returned,
  with the state as the throw left it; otherwise \<open>currentPreset\<close> is set.
\<close>

definition apply_failed :: "app \<Rightarrow> bool \<times> app" where
  "apply_failed w = (False, showToast ''Failed to apply preset'' ''error'' w)"

definition apply_found :: "preset \<Rightarrow> app \<Rightarrow> bool \<times> app" where
  "apply_found p w =
     (case (case preset_background p of
              None \<Rightarrow> Normal w
            | Some b \<Rightarrow> apply_background b w) of
        Throws e w1 \<Rightarrow> apply_failed w1
      | Normal w1 \<Rightarrow>
          (let w2 = (case preset_overlay p of None \<Rightarrow> w1 | Some ov \<Rightarrow> apply_overlay ov w1)
           in (case (case preset_reader p of
                       None \<Rightarrow> Normal (reader w2)
                     | Some r \<Rightarrow> apply_reader r (reader w2)) of
                 Throws e rd \<Rightarrow> apply_failed (w2\<lparr>reader := rd\<rparr>)
               | Normal rd \<Rightarrow> (True, w2\<lparr>reader := rd, currentPreset := Some p\<rparr>))))"

text \<open>
  \<open>applyPreset(presetName)\<close>: the cache first, then (with a backend) \<open>load_preset\<close>; the
  result is the returned boolean and the application afterwards.
\<close>

definition applyPreset :: "string \<Rightarrow> app \<Rightarrow> bool \<times> app" where
  "applyPreset presetName w =
     (case find (\<lambda>p. preset_name p = presetName) (presets w) of
        Some p \<Rightarrow> apply_found p w
      | None \<Rightarrow>
          if isTauri w
          then (case load_preset (backend w) presetName of
                  None \<Rightarrow> (False, w)
                | Some p \<Rightarrow> apply_found p w)
          else (False, w))"

text \<open>\<open>x || 0\<close> on the stored overlay opacity.\<close>

fun or_zero :: "jsnum \<Rightarrow> real" where
  "or_zero (Num x) = x"
| "or_zero NaN = 0"

definition buildPresetFromCurrent :: "string \<Rightarrow> prefs \<Rightarrow> app \<Rightarrow> preset" where
  "buildPresetFromCurrent nm cp w =
     (let bgMedia = getCurrentMedia (bgManager w)
      in \<lparr>preset_version = ''2.0'',
          preset_name = nm,
          preset_author = ''User'',
          preset_description = ''Custom preset: '' @ nm,
          preset_background = Some
            \<lparr>bg_type = Val (if truthy_str (fst bgMedia) then ''media'' else ''none''),
             bg_path = (if truthy_str (fst bgMedia) then fst bgMedia else Null)\<rparr>,
          preset_overlay = Some
            \<lparr>ov_color = Val (or_str (currentColor (overlayManager w)) ''#000000''),
             ov_opacity = Val (or_zero (currentOpacity (overlayManager w)))\<rparr>,
          preset_reader = Some
            \<lparr>r_opacity = Val (nullish_real (p_containerOpacity cp) 95 / 100),
             r_backgroundColor = Val (or_str (p_containerColor cp) ''#FFFFFF''),
             r_textColor = Val (or_str (p_textColor cp) ''#1a1a1a''),
             r_fontFamily = Val (or_str (p_fontFamily cp) ''serif''),
             r_fontSize = Val (or_real (p_fontSize cp) 18),
             r_readingMode = Val (or_str (p_readingMode cp) ''paginated''),
             r_glassmorphism = Val (truthy_bool (p_glassmorphism cp)),
             r_glassBlur = Val (nullish_real (p_glassBlur cp) 12),
             r_scrollbarTrack = Val (or_str (p_scrollbarTrack cp) ''#1a1a1a''),
             r_scrollbarThumb = Val (or_str (p_scrollbarThumb cp) ''#4a9eff'')\<rparr>\<rparr>)"

text \<open>The object \<open>{}\<close>: no key set.\<close>

definition empty_prefs :: prefs where
  "empty_prefs =
     \<lparr>p_fontFamily = Undefined, p_fontSize = Undefined, p_lastPreset = Undefined,
      p_readingMode = Undefined, p_textColor = Undefined, p_containerColor = Undefined,
      p_containerOpacity = Undefined, p_glassmorphism = Undefined, p_glassBlur = Undefined,
      p_bgMediaPath = Undefined, p_bgAudioMuted = Undefined, p_bgMusicPath = Undefined,
      p_bgMusicVolume = Undefined, p_bgMusicMuted = Undefined, p_scrollbarTrack = Undefined,
      p_scrollbarThumb = Undefined\<rparr>"

text \<open>
  \<open>Math.round(r.opacity * 100)\<close> for an opacity that is not \<open>undefined\<close>; the first
  argument is the platform's \<open>Math.round(x * 100)\<close> on numbers (\<open>null\<close> counts as 0).
\<close>

fun round_percent :: "(real \<Rightarrow> real) \<Rightarrow> real js \<Rightarrow> real js" where
  "round_percent rp (Val x) = Val (rp x)"
| "round_percent rp _ = Val 0"

definition keep_if :: "bool \<Rightarrow> 'a js \<Rightarrow> 'a js" where
  "keep_if c v = (if c then v else Undefined)"

text \<open>
  The keys that \<open>extractPrefsFromPreset\<close> sets from \<open>preset.reader\<close>, each under its own
  guard, on the empty object.
\<close>

definition extract_reader :: "(real \<Rightarrow> real) \<Rightarrow> reader_spec \<Rightarrow> prefs" where
  "extract_reader rp r =
     empty_prefs
       \<lparr>p_fontFamily := keep_if (truthy_str (r_fontFamily r)) (r_fontFamily r),
        p_fontSize := keep_if (truthy_real (r_fontSize r)) (r_fontSize r),
        p_readingMode := keep_if (truthy_str (r_readingMode r)) (r_readingMode r),
        p_textColor := keep_if (truthy_str (r_textColor r)) (r_textColor r),
        p_containerColor := keep_if (truthy_str (r_backgroundColor r)) (r_backgroundColor r),
        p_containerOpacity := keep_if (r_opacity r \<noteq> Undefined) (round_percent rp (r_opacity r)),
        p_glassmorphism := keep_if (r_glassmorphism r \<noteq> Undefined) (r_glassmorphism r),
        p_glassBlur := keep_if (r_glassBlur r \<noteq> Undefined) (r_glassBlur r),
        p_scrollbarTrack := keep_if (truthy_str (r_scrollbarTrack r)) (r_scrollbarTrack r),
        p_scrollbarThumb := keep_if (truthy_str (r_scrollbarThumb r)) (r_scrollbarThumb r)\<rparr>"

definition extractPrefsFromPreset :: "(real \<Rightarrow> real) \<Rightarrow> preset \<Rightarrow> prefs" where
  "extractPrefsFromPreset rp p =
     (let q = (case preset_reader p of None \<Rightarrow> empty_prefs | Some r \<Rightarrow> extract_reader rp r)
      in (case preset_background p of
            None \<Rightarrow> q\<lparr>p_bgMediaPath := Null\<rparr>
          | Some b \<Rightarrow>
              if truthy_str (bg_path b) then q\<lparr>p_bgMediaPath := bg_path b\<rparr>
              else q\<lparr>p_bgMediaPath := Null\<rparr>))"

text \<open>\<open>deletePreset(name)\<close>: nothing without a backend; otherwise the request goes to it.\<close>

definition deletePreset :: "string \<Rightarrow> app \<Rightarrow> app" where
  "deletePreset nm w =
     (if \<not> isTauri w then w
      else (case delete_preset (backend w) nm of
              Some b \<Rightarrow> showToast (''Deleted preset: '' @ nm) ''success''
                          (loadPresets (w\<lparr>backend := b\<rparr>))
            | None \<Rightarrow> showToast ''Failed to delete preset'' ''error'' w))"


section \<open>Startup and the preset panel (main.js)\<close>

definition BUILTIN_NAMES :: "string list" where
  "BUILTIN_NAMES = [''Cozy Reading'', ''Focus Mode'', ''Night Reading'']"

text \<open>
  \<open>renderPresetList(presets)\<close>: the order in which the panel lists the presets, and whether
  an item gets a delete button.
\<close>

definition renderPresetList :: "preset list \<Rightarrow> preset list" where
  "renderPresetList ps =
     filter (\<lambda>p. preset_name p \<notin> set BUILTIN_NAMES) ps
       @ filter (\<lambda>p. preset_name p \<in> set BUILTIN_NAMES) ps"

definition has_delete_button :: "preset \<Rightarrow> bool" where
  "has_delete_button p = (preset_name p \<notin> set BUILTIN_NAMES)"

text \<open>\<open>Object.assign(target, source)\<close> on preferences: every key set in the source is copied.\<close>

definition assign_prefs :: "prefs \<Rightarrow> prefs \<Rightarrow> prefs" where
  "assign_prefs tgt src =
     \<lparr>p_fontFamily = pick (p_fontFamily src) (p_fontFamily tgt),
      p_fontSize = pick (p_fontSize src) (p_fontSize tgt),
      p_lastPreset = pick (p_lastPreset src) (p_lastPreset tgt),
      p_readingMode = pick (p_readingMode src) (p_readingMode tgt),
      p_textColor = pick (p_textColor src) (p_textColor tgt),
      p_containerColor = pick (p_containerColor src) (p_containerColor tgt),
      p_containerOpacity = pick (p_containerOpacity src) (p_containerOpacity tgt),
      p_glassmorphism = pick (p_glassmorphism src) (p_glassmorphism tgt),
      p_glassBlur = pick (p_glassBlur src) (p_glassBlur tgt),
      p_bgMediaPath = pick (p_bgMediaPath src) (p_bgMediaPath tgt),
      p_bgAudioMuted = pick (p_bgAudioMuted src) (p_bgAudioMuted tgt),
      p_bgMusicPath = pick (p_bgMusicPath src) (p_bgMusicPath tgt),
      p_bgMusicVolume = pick (p_bgMusicVolume src) (p_bgMusicVolume tgt),
      p_bgMusicMuted = pick (p_bgMusicMuted src) (p_bgMusicMuted tgt),
      p_scrollbarTrack = pick (p_scrollbarTrack src) (p_scrollbarTrack tgt),
      p_scrollbarThumb = pick (p_scrollbarThumb src) (p_scrollbarThumb tgt)\<rparr>"

text \<open>
  The click handler of an item of the preset panel: the preset is applied by name and, when
  that succeeds, the preferences take over the values extracted from it.
\<close>

definition preset_clicked :: "preset \<Rightarrow> app \<Rightarrow> app" where
  "preset_clicked p w =
     (case applyPreset (preset_name p) w of
        (applied, w1) \<Rightarrow>
          if applied
          then w1\<lparr>currentPrefs :=
                    assign_prefs (currentPrefs w1) (extractPrefsFromPreset (round100 w1) p)\<rparr>
          else w1)"

text \<open>The branch of \<open>init\<close> taken when the loaded list has a \<open>_last_session\<close> preset.\<close>

definition restore_session :: "app \<Rightarrow> app completion" where
  "restore_session w =
     (case applyPreset ''_last_session'' w of
        (applied, w1) \<Rightarrow>
          if applied
          then (case currentPreset w1 of
                  None \<Rightarrow> Throws TypeError w1
                | Some p \<Rightarrow>
                    Normal (w1\<lparr>currentPrefs :=
                                assign_prefs (currentPrefs w1)
                                  (extractPrefsFromPreset (round100 w1) p)\<rparr>))
          else Normal w1)"

text \<open>The other branch: \<open>currentPrefs\<close> applied to the reader and the background.\<close>

definition apply_prefs_directly :: "app \<Rightarrow> app completion" where
  "apply_prefs_directly w =
     (let cp = currentPrefs w;
          rd1 = setFontFamily (p_fontFamily cp) (reader w);
          rd2 = setFontSize (to_number (p_fontSize cp)) rd1;
          rd3 = setFlow (or_str (p_readingMode cp) ''paginated'') rd2;
          rd4 = setTextColor (or_str (p_textColor cp) ''#1a1a1a'') rd3;
          rd5 = setBackgroundColor (or_str (p_containerColor cp) ''#FFFFFF'') rd4;
          rd6 = setOpacity (Num (nullish_real (p_containerOpacity cp) 95 / 100)) rd5;
          rd7 = setGlassmorphism (Val (truthy_bool (p_glassmorphism cp))) rd6;
          rd8 = setBlur (Num (nullish_real (p_glassBlur cp) 12)) rd7
      in (case setScrollbarColors (Val (or_str (p_scrollbarTrack cp) ''#1a1a1a''))
                (Val (or_str (p_scrollbarThumb cp) ''#4a9eff'')) rd8 of
            Throws e rd \<Rightarrow> Throws e (w\<lparr>reader := rd\<rparr>)
          | Normal rd \<Rightarrow>
              (let w1 = w\<lparr>reader := rd\<rparr>;
                   w2 = (if truthy_str (p_bgMediaPath cp)
                         then w1\<lparr>bgManager := setMedia (toLowerCase w1) (isTauri w1)
                                                  (p_bgMediaPath cp) (bgManager w1)\<rparr>
                         else w1)
               in Normal (w2\<lparr>bgManager :=
                             setMuted (nullish_bool (p_bgAudioMuted cp) True) (bgManager w2)\<rparr>))))"

definition restore_music :: "app \<Rightarrow> app" where
  "restore_music w =
     (let cp = currentPrefs w
      in if truthy_str (p_bgMusicPath cp)
         then w\<lparr>bgManager :=
                  setMusicMuted (nullish_bool (p_bgMusicMuted cp) True)
                    (setMusic (isTauri w) (p_bgMusicPath cp)
                       (setMusicVolume (nullish_real (p_bgMusicVolume cp) 50) (bgManager w)))\<rparr>
         else w)"

text \<open>
  \<open>init()\<close>, as far as it touches the state holders and \<open>currentPrefs\<close>: preferences, presets,
  session or preferences, background music.  What it does to the panels and the library view
  is left out.
\<close>

definition hasLastSession :: "app \<Rightarrow> bool" where
  "hasLastSession w = list_ex (\<lambda>p. preset_name p = ''_last_session'') (presets w)"

definition load_prefs :: "app \<Rightarrow> app" where
  "load_prefs w =
     (if isTauri w
      then (case get_preferences (backend w) of
              Some p \<Rightarrow> w\<lparr>currentPrefs := p\<rparr>
            | None \<Rightarrow> w)
      else w)"

definition init :: "app \<Rightarrow> app completion" where
  "init w =
     (let w1 = load_prefs w;
          w2 = loadPresets w1
      in (case (if hasLastSession w2 then restore_session w2 else apply_prefs_directly w2) of
            Throws e w3 \<Rightarrow> Throws e w3
          | Normal w3 \<Rightarrow> Normal (restore_music w3)))"


section \<open>Debounced progress saving (main.js, library.js)\<close>

text \<open>
  The payload of a \<open>relocated\<close> event: \<open>None\<close> for a falsy \<open>location\<close>, otherwise the
  location with the CFI of its \<open>start\<close>, when it has one.
\<close>

record location =
  loc_start :: "string option"

text \<open>
  Timers are explicit: a pending timer is its id, the time in milliseconds at which it is
  due, and the location its callback closed over.  Ids count up from 1, as in a browser.
  \<open>updates\<close> lists the \<open>update_progress\<close> requests made to the backend: book id, CFI,
  progress.
\<close>

record progress_state =
  currentBookId :: "string js"
  saveTimeout :: "nat option"
  timers :: "(nat \<times> nat \<times> location option) list"
  next_timer_id :: nat
  updates :: "(string \<times> string \<times> real) list"

text \<open>
  What the callback reads besides its location: \<open>isTauri\<close>, and \<open>reader.book.locations\<close>
  (\<open>None\<close> when falsy) with its \<open>percentageFromCfi\<close>.
\<close>

record progress_env =
  pe_isTauri :: bool
  pe_locations :: "(string \<Rightarrow> jsnum) option"

definition initial_progress :: "string js \<Rightarrow> progress_state" where
  "initial_progress bookId =
     \<lparr>currentBookId = bookId, saveTimeout = None, timers = [], next_timer_id = 1, updates = []\<rparr>"

definition clearTimeout :: "nat \<Rightarrow> progress_state \<Rightarrow> progress_state" where
  "clearTimeout i s = s\<lparr>timers := filter (\<lambda>(j, d, l). j \<noteq> i) (timers s)\<rparr>"

definition setTimeout :: "nat \<Rightarrow> nat \<Rightarrow> location option \<Rightarrow> progress_state \<Rightarrow> nat \<times> progress_state" where
  "setTimeout now delay l s =
     (next_timer_id s,
      s\<lparr>timers := timers s @ [(next_timer_id s, now + delay, l)],
        next_timer_id := Suc (next_timer_id s)\<rparr>)"

text \<open>\<open>LibraryManager.updateProgress(bookId, cfi, percentage)\<close>\<close>

definition updateProgress :: "progress_env \<Rightarrow> string js \<Rightarrow> string \<Rightarrow> real \<Rightarrow> progress_state \<Rightarrow> progress_state" where
  "updateProgress env bookId cfi percentage s =
     (case bookId of
        Val b \<Rightarrow> if \<not> pe_isTauri env \<or> b = [] then s
                 else s\<lparr>updates := updates s @ [(b, cfi, percentage)]\<rparr>
      | _ \<Rightarrow> s)"

text \<open>The callback handed to \<open>setTimeout\<close>.\<close>

definition save_callback :: "progress_env \<Rightarrow> location option \<Rightarrow> progress_state \<Rightarrow> progress_state" where
  "save_callback env l s =
     (if \<not> truthy_str (currentBookId s) then s
      else (case l of
              None \<Rightarrow> s
            | Some loc \<Rightarrow>
                (case loc_start loc of
                   None \<Rightarrow> s
                 | Some cfi \<Rightarrow>
                     (let progress = (case pe_locations env of
                                        None \<Rightarrow> Num 0
                                      | Some percentageFromCfi \<Rightarrow> percentageFromCfi cfi)
                      in updateProgress env (currentBookId s) cfi (or_zero progress) s))))"

text \<open>The handler of \<open>relocated\<close>, run at time \<open>now\<close>.\<close>

definition on_relocated :: "nat \<Rightarrow> location option \<Rightarrow> progress_state \<Rightarrow> progress_state" where
  "on_relocated now l s =
     (let s1 = (case saveTimeout s of
                  None \<Rightarrow> s
                | Some i \<Rightarrow> if i \<noteq> 0 then clearTimeout i s else s);
          r = setTimeout now 2000 l s1
      in (snd r)\<lparr>saveTimeout := Some (fst r)\<rparr>)"

text \<open>
  The event loop: before an event at time \<open>now\<close> is handled, the timers due by then have
  fired, in the order they were set; when the events are over, the pending timers fire.
\<close>

definition fire :: "progress_env \<Rightarrow> (nat \<times> nat \<times> location option) list \<Rightarrow> progress_state \<Rightarrow> progress_state" where
  "fire env ts s = fold (\<lambda>(i, d, l). save_callback env l) ts s"

definition fire_due :: "progress_env \<Rightarrow> nat \<Rightarrow> progress_state \<Rightarrow> progress_state" where
  "fire_due env now s =
     fire env (filter (\<lambda>(i, d, l). d \<le> now) (timers s))
       (s\<lparr>timers := filter (\<lambda>(i, d, l). \<not> d \<le> now) (timers s)\<rparr>)"

definition fire_pending :: "progress_env \<Rightarrow> progress_state \<Rightarrow> progress_state" where
  "fire_pending env s = fire env (timers s) (s\<lparr>timers := []\<rparr>)"

fun run_events :: "progress_env \<Rightarrow> (nat \<times> location option) list \<Rightarrow> progress_state \<Rightarrow> progress_state" where
  "run_events env [] s = s"
| "run_events env ((t, l) # evs) s = run_events env evs (on_relocated t l (fire_due env t s))"





text \<open>Three page turns half a second apart, and two that are three seconds apart.\<close>

definition sample_env :: progress_env where
  "sample_env =
     \<lparr>pe_isTauri = True,
      pe_locations = Some (\<lambda>cfi. if cfi = ''epubcfi(/6/8)'' then Num 0.25 else Num 0.125)\<rparr>"


definition slow_events :: "(nat \<times> location option) list" where
  "slow_events =
     [(0, Some \<lparr>loc_start = Some ''epubcfi(/6/4)''\<rparr>),
      (3000, Some \<lparr>loc_start = Some ''epubcfi(/6/8)''\<rparr>)]"


section \<open>Auxiliary notions for the proofs\<close>

text \<open>
  When the \<open>try\<close> block of \<open>applyPreset\<close> throws: at the background step when
  \<open>get_app_dir\<close> rejects, at the reader step when \<open>setScrollbarColors\<close> is called and meets
  a thumb that is not a string.  The lemma \<open>apply_found_eq\<close> below shows that these are the
  cases.
\<close>

definition background_throws :: "preset \<Rightarrow> app \<Rightarrow> bool" where
  "background_throws p w =
     (case preset_background p of
        None \<Rightarrow> False
      | Some b \<Rightarrow> bg_type b = Val ''image'' \<and> truthy_str (bg_path b) \<and> isTauri w
                  \<and> get_app_dir (backend w) = None)"

definition reader_throws :: "preset \<Rightarrow> reader_state \<Rightarrow> bool" where
  "reader_throws p rd =
     (case preset_reader p of
        None \<Rightarrow> False
      | Some r \<Rightarrow> (truthy_str (r_scrollbarTrack r) \<or> truthy_str (r_scrollbarThumb r))
                  \<and> \<not> is_val (pick (r_scrollbarThumb r) (scrollbarThumb rd)))"

text \<open>
  The preset that \<open>applyPreset\<close> works on: the first cached preset of the name, else, with
  a backend, the one that \<open>load_preset\<close> resolves to.
\<close>

definition resolve_preset :: "string \<Rightarrow> app \<Rightarrow> preset option" where
  "resolve_preset nm w =
     (case find (\<lambda>p. preset_name p = nm) (presets w) of
        Some p \<Rightarrow> Some p
      | None \<Rightarrow> if isTauri w then load_preset (backend w) nm else None)"

text \<open>
  What the three steps leave in their state holders, written out in terms of the setters:
  the background by the three cases on the preset's background type, the overlay by
  \<open>setTint\<close>, and the reader (\<open>rd_after\<close>) as the run of \<open>apply_reader\<close> ends, with
  \<open>applied_appearance\<close> for the appearance it then has: each field the preset's value, as
  its setter stores it, where the guard of the field lets the setter run, and the old
  value elsewhere.  (With a document open \<open>setFlow\<close> passes the font size through its
  setter once more.)
\<close>

definition bg_after :: "preset \<Rightarrow> app \<Rightarrow> background_state" where
  "bg_after p w =
     (case preset_background p of
        None \<Rightarrow> bgManager w
      | Some b \<Rightarrow>
          if bg_type b = Val ''media'' \<and> truthy_str (bg_path b)
          then setMedia (toLowerCase w) (isTauri w) (bg_path b) (bgManager w)
          else if bg_type b = Val ''image'' \<and> truthy_str (bg_path b)
          then (if isTauri w
                then (case get_app_dir (backend w) of
                        None \<Rightarrow> bgManager w
                      | Some appDir \<Rightarrow>
                          setMedia (toLowerCase w) (isTauri w)
                            (Val (appDir @ ''/'' @ str_of (bg_path b))) (bgManager w))
                else setMedia (toLowerCase w) (isTauri w) (bg_path b) (bgManager w))
          else clearMedia (bgManager w))"

definition ov_after :: "preset \<Rightarrow> app \<Rightarrow> overlay_state" where
  "ov_after p w =
     (case preset_overlay p of
        None \<Rightarrow> overlayManager w
      | Some ov \<Rightarrow> setTint (ov_color ov) (to_number (ov_opacity ov)) (overlayManager w))"

definition rd_after :: "preset \<Rightarrow> app \<Rightarrow> reader_state" where
  "rd_after p w =
     state_of (case preset_reader p of
                 None \<Rightarrow> Normal (reader w)
               | Some r \<Rightarrow> apply_reader r (reader w))"

definition applied_appearance ::
    "reader_spec \<Rightarrow> reader_state \<Rightarrow> jsnum \<times> string \<times> string \<times> string js \<times> jsnum \<times> string
       \<times> bool js \<times> jsnum \<times> string js \<times> string js" where
  "applied_appearance r rd =
     (if r_opacity r \<noteq> Undefined then clamp 0 1 (to_number (r_opacity r)) else opacity rd,
      if truthy_str (r_backgroundColor r) then str_of (r_backgroundColor r) else backgroundColor rd,
      if truthy_str (r_textColor r) then str_of (r_textColor r) else textColor rd,
      if truthy_str (r_fontFamily r) then r_fontFamily r else fontFamily rd,
      if truthy_real (r_fontSize r) then clamp 12 32 (to_number (r_fontSize r))
      else if truthy_str (r_readingMode r) \<and> book rd \<and> rendition rd \<noteq> None
           then clamp 12 32 (fontSize rd) else fontSize rd,
      if truthy_str (r_readingMode r) then str_of (r_readingMode r) else flow rd,
      if r_glassmorphism r \<noteq> Undefined then r_glassmorphism r else glassmorphism rd,
      if r_glassBlur r \<noteq> Undefined then clamp 0 40 (to_number (r_glassBlur r)) else blur rd,
      if (truthy_str (r_scrollbarTrack r) \<or> truthy_str (r_scrollbarThumb r))
         \<and> r_scrollbarTrack r \<noteq> Undefined
      then r_scrollbarTrack r else scrollbarTrack rd,
      if (truthy_str (r_scrollbarTrack r) \<or> truthy_str (r_scrollbarThumb r))
         \<and> r_scrollbarThumb r \<noteq> Undefined
      then r_scrollbarThumb r else scrollbarThumb rd)"

text \<open>
  Capturing the current state into a preset and applying that preset at once (the preset
  object itself: it is in no list yet).
\<close>

definition capture_then_apply :: "string \<Rightarrow> app \<Rightarrow> bool \<times> app" where
  "capture_then_apply nm w = apply_found (buildPresetFromCurrent nm (currentPrefs w) w) w"

text \<open>
  The appearance that the preferences describe, as \<open>buildPresetFromCurrent\<close> reads them
  (defaults filled in) and the setters store them (numbers clamped); and as the first-run
  branch of \<open>init\<close> applies them, which passes font family and size as they are.
\<close>

definition prefs_appearance ::
    "prefs \<Rightarrow> jsnum \<times> string \<times> string \<times> string js \<times> jsnum \<times> string \<times> bool js \<times> jsnum
       \<times> string js \<times> string js" where
  "prefs_appearance cp =
     (clamp 0 1 (Num (nullish_real (p_containerOpacity cp) 95 / 100)),
      or_str (p_containerColor cp) ''#FFFFFF'',
      or_str (p_textColor cp) ''#1a1a1a'',
      Val (or_str (p_fontFamily cp) ''serif''),
      clamp 12 32 (Num (or_real (p_fontSize cp) 18)),
      or_str (p_readingMode cp) ''paginated'',
      Val (truthy_bool (p_glassmorphism cp)),
      clamp 0 40 (Num (nullish_real (p_glassBlur cp) 12)),
      Val (or_str (p_scrollbarTrack cp) ''#1a1a1a''),
      Val (or_str (p_scrollbarThumb cp) ''#4a9eff''))"

definition direct_appearance ::
    "prefs \<Rightarrow> jsnum \<times> string \<times> string \<times> string js \<times> jsnum \<times> string \<times> bool js \<times> jsnum
       \<times> string js \<times> string js" where
  "direct_appearance cp =
     (clamp 0 1 (Num (nullish_real (p_containerOpacity cp) 95 / 100)),
      or_str (p_containerColor cp) ''#FFFFFF'',
      or_str (p_textColor cp) ''#1a1a1a'',
      p_fontFamily cp,
      clamp 12 32 (to_number (p_fontSize cp)),
      or_str (p_readingMode cp) ''paginated'',
      Val (truthy_bool (p_glassmorphism cp)),
      clamp 0 40 (Num (nullish_real (p_glassBlur cp) 12)),
      Val (or_str (p_scrollbarTrack cp) ''#1a1a1a''),
      Val (or_str (p_scrollbarThumb cp) ''#4a9eff''))"

text \<open>
  Two invariants of the state holders: the stored media type is the type of the stored
  path, and the stored overlay opacity is a number from 0 to 1.
\<close>

definition media_consistent :: "(string \<Rightarrow> string) \<Rightarrow> background_state \<Rightarrow> bool" where
  "media_consistent lc bg =
     (case currentMedia bg of
        Val path \<Rightarrow> path \<noteq> [] \<and> currentType bg = getMediaType lc path
      | Null \<Rightarrow> currentType bg = None
      | Undefined \<Rightarrow> False)"

definition tint_in_range :: "overlay_state \<Rightarrow> bool" where
  "tint_in_range ov =
     (case currentOpacity ov of
        Num x \<Rightarrow> 0 \<le> x \<and> x \<le> 1
      | NaN \<Rightarrow> False)"


text \<open>
  Preferences and reader agree with a preset's reader section: on every key the preset
  sets, the preferences hold the preset's value (the opacity as a rounded percentage) and
  the reader holds it as its setter stores it.
\<close>

definition synced :: "(real \<Rightarrow> real) \<Rightarrow> reader_spec \<Rightarrow> prefs \<Rightarrow> reader_state \<Rightarrow> bool" where
  "synced rp r cp rd =
     ((truthy_str (r_fontFamily r) \<longrightarrow>
         p_fontFamily cp = r_fontFamily r \<and> fontFamily rd = r_fontFamily r)
      \<and> (truthy_real (r_fontSize r) \<longrightarrow>
         p_fontSize cp = r_fontSize r \<and> fontSize rd = clamp 12 32 (to_number (r_fontSize r)))
      \<and> (truthy_str (r_readingMode r) \<longrightarrow>
         p_readingMode cp = r_readingMode r \<and> flow rd = str_of (r_readingMode r))
      \<and> (truthy_str (r_textColor r) \<longrightarrow>
         p_textColor cp = r_textColor r \<and> textColor rd = str_of (r_textColor r))
      \<and> (truthy_str (r_backgroundColor r) \<longrightarrow>
         p_containerColor cp = r_backgroundColor r
         \<and> backgroundColor rd = str_of (r_backgroundColor r))
      \<and> (r_opacity r \<noteq> Undefined \<longrightarrow>
         p_containerOpacity cp = round_percent rp (r_opacity r)
         \<and> opacity rd = clamp 0 1 (to_number (r_opacity r)))
      \<and> (r_glassmorphism r \<noteq> Undefined \<longrightarrow>
         p_glassmorphism cp = r_glassmorphism r \<and> glassmorphism rd = r_glassmorphism r)
      \<and> (r_glassBlur r \<noteq> Undefined \<longrightarrow>
         p_glassBlur cp = r_glassBlur r \<and> blur rd = clamp 0 40 (to_number (r_glassBlur r)))
      \<and> (truthy_str (r_scrollbarTrack r) \<longrightarrow>
         p_scrollbarTrack cp = r_scrollbarTrack r \<and> scrollbarTrack rd = r_scrollbarTrack r)
      \<and> (truthy_str (r_scrollbarThumb r) \<longrightarrow>
         p_scrollbarThumb cp = r_scrollbarThumb r \<and> scrollbarThumb rd = r_scrollbarThumb r))"

text \<open>
  The preferences after synchronisation from a preset, key by key: a key of the reader
  section that passes its guard takes the preset's value, the background path is the
  preset's path or \<open>null\<close>, and every other key keeps its value.
\<close>

definition synced_prefs :: "(real \<Rightarrow> real) \<Rightarrow> preset \<Rightarrow> prefs \<Rightarrow> prefs" where
  "synced_prefs rp p cp =
     (case preset_reader p of
        None \<Rightarrow> cp
      | Some r \<Rightarrow>
          cp\<lparr>p_fontFamily :=
               (if truthy_str (r_fontFamily r) then r_fontFamily r else p_fontFamily cp),
             p_fontSize := (if truthy_real (r_fontSize r) then r_fontSize r else p_fontSize cp),
             p_readingMode :=
               (if truthy_str (r_readingMode r) then r_readingMode r else p_readingMode cp),
             p_textColor := (if truthy_str (r_textColor r) then r_textColor r else p_textColor cp),
             p_containerColor :=
               (if truthy_str (r_backgroundColor r) then r_backgroundColor r
                else p_containerColor cp),
             p_containerOpacity :=
               (case r_opacity r of
                  Undefined \<Rightarrow> p_containerOpacity cp
                | Null \<Rightarrow> Val 0
                | Val x \<Rightarrow> Val (rp x)),
             p_glassmorphism :=
               (if r_glassmorphism r \<noteq> Undefined then r_glassmorphism r else p_glassmorphism cp),
             p_glassBlur := (if r_glassBlur r \<noteq> Undefined then r_glassBlur r else p_glassBlur cp),
             p_scrollbarTrack :=
               (if truthy_str (r_scrollbarTrack r) then r_scrollbarTrack r
                else p_scrollbarTrack cp),
             p_scrollbarThumb :=
               (if truthy_str (r_scrollbarThumb r) then r_scrollbarThumb r
                else p_scrollbarThumb cp)\<rparr>)
       \<lparr>p_bgMediaPath :=
          (case preset_background p of
             None \<Rightarrow> Null
           | Some b \<Rightarrow> if truthy_str (bg_path b) then bg_path b else Null)\<rparr>"


section \<open>Sample states\<close>

text \<open>
  The application as the module-level code of main.js leaves it before \<open>init()\<close> runs: the
  three managers freshly constructed over the elements of the page, no preset loaded, the
  built-in preferences.
\<close>

definition page_container :: container_el where
  "page_container =
     \<lparr>cn_background = Unstyled, cn_glass = False, cn_backdropFilter = None,
      cn_scroll_mode = False, cn_paged_mode = False\<rparr>"

definition page_image :: image_el where
  "page_image = \<lparr>img_src = Path [], img_active = False\<rparr>"

definition page_video :: video_el where
  "page_video = \<lparr>vid_src = Path [], vid_active = False, vid_muted = False, vid_playing = False\<rparr>"

definition initial_app :: "(string \<Rightarrow> string) \<Rightarrow> (real \<Rightarrow> real) \<Rightarrow> bool \<Rightarrow> backend \<Rightarrow> app" where
  "initial_app lc rp t b =
     \<lparr>toLowerCase = lc, round100 = rp, isTauri = t, backend = b,
      reader = new_EpubReader page_container,
      bgManager = new_BackgroundManager page_image page_video,
      overlayManager = new_OverlayManager,
      currentPreset = None, presets = [], currentPrefs = default_prefs, toasts = []\<rparr>"

text \<open>
  The samples run with these two instances of the library functions: a lowercasing that maps
  the ASCII capitals and leaves every other character, and the rounding of the exact
  product.  On the inputs of the samples (ASCII paths, and the opacities 0.85 and 0.9, whose
  hundredfold rounds to 85 and 90 in double precision as well) they give what the platform
  gives.
\<close>

definition lower_char :: "char \<Rightarrow> char" where
  "lower_char c =
     (case map_of (zip ''ABCDEFGHIJKLMNOPQRSTUVWXYZ'' ''abcdefghijklmnopqrstuvwxyz'') c of
        Some l \<Rightarrow> l
      | None \<Rightarrow> c)"

definition ascii_lower :: "string \<Rightarrow> string" where
  "ascii_lower s = map lower_char s"

definition exact_round100 :: "real \<Rightarrow> real" where
  "exact_round100 x = of_int (math_round (x * 100))"

abbreviation sample_app :: "bool \<Rightarrow> backend \<Rightarrow> app" where
  "sample_app t b \<equiv> initial_app ascii_lower exact_round100 t b"

text \<open>A backend on which every command rejects (and the one of the browser mode).\<close>

definition no_backend :: backend where
  "no_backend = Backend None None (\<lambda>n. None) None (\<lambda>n. None)"

text \<open>
  A stored preset whose scrollbar thumb is \<open>null\<close> (Night Reading otherwise), on a backend
  that lists it; and a stored preset with an image background, on a backend whose
  \<open>get_app_dir\<close> rejects.
\<close>

definition broken_preset :: preset where
  "broken_preset =
     \<lparr>preset_version = ''2.0'', preset_name = ''Broken'', preset_author = ''User'',
      preset_description = ''Custom preset: Broken'',
      preset_background = Some \<lparr>bg_type = Val ''none'', bg_path = Null\<rparr>,
      preset_overlay = Some \<lparr>ov_color = Val ''#1a1a2e'', ov_opacity = Val 0.4\<rparr>,
      preset_reader = Some
        \<lparr>r_opacity = Val 0.85, r_backgroundColor = Val ''#2d2d2d'',
         r_textColor = Val ''#e0e0e0'', r_fontFamily = Val ''serif'', r_fontSize = Val 20,
         r_readingMode = Val ''paginated'', r_glassmorphism = Val False, r_glassBlur = Val 8,
         r_scrollbarTrack = Val ''#1a1a1a'', r_scrollbarThumb = Null\<rparr>\<rparr>"

definition broken_backend :: backend where
  "broken_backend =
     Backend None (Some [''Broken''])
       (\<lambda>n. if n = ''Broken'' then Some broken_preset else None) None (\<lambda>n. None)"

definition broken_app :: app where
  "broken_app = loadPresets (sample_app True broken_backend)"

definition image_preset :: preset where
  "image_preset =
     \<lparr>preset_version = ''1.0'', preset_name = ''Forest'', preset_author = ''EPUB Team'',
      preset_description = ''A forest'',
      preset_background = Some \<lparr>bg_type = Val ''image'', bg_path = Val ''presets/forest.jpg''\<rparr>,
      preset_overlay = Some \<lparr>ov_color = Val ''#1a1a2e'', ov_opacity = Val 0.4\<rparr>,
      preset_reader = None\<rparr>"

definition image_backend :: backend where
  "image_backend =
     Backend None (Some [''Forest''])
       (\<lambda>n. if n = ''Forest'' then Some image_preset else None) None (\<lambda>n. None)"

definition image_app :: app where
  "image_app = loadPresets (sample_app True image_backend)"

text \<open>
  A backend that lists no preset; and one that stores a preset named \<open>Cozy Reading\<close> and
  a user preset, and carries out the deletion of the former.
\<close>

definition empty_backend :: backend where
  "empty_backend = Backend None (Some []) (\<lambda>n. None) None (\<lambda>n. None)"

definition mine_preset :: preset where
  "mine_preset =
     \<lparr>preset_version = ''2.0'', preset_name = ''Mine'', preset_author = ''User'',
      preset_description = ''Custom preset: Mine'',
      preset_background = Some \<lparr>bg_type = Val ''none'', bg_path = Null\<rparr>,
      preset_overlay = Some \<lparr>ov_color = Val ''#000000'', ov_opacity = Val 0\<rparr>,
      preset_reader = None\<rparr>"

definition store_after :: backend where
  "store_after =
     Backend None (Some [''Mine''])
       (\<lambda>n. if n = ''Mine'' then Some mine_preset else None) None (\<lambda>n. None)"

definition store_before :: backend where
  "store_before =
     Backend None (Some [''Cozy Reading'', ''Mine''])
       (\<lambda>n. if n = ''Cozy Reading'' then Some (hd getFallbackPresets)
            else if n = ''Mine'' then Some mine_preset else None)
       None
       (\<lambda>n. if n = ''Cozy Reading'' then Some store_after else None)"

definition stored_app :: app where
  "stored_app = loadPresets (sample_app True store_before)"

text \<open>
  A backend with stored preferences and a session snapshot that differs from them, one
  whose session snapshot has the \<open>null\<close> thumb, and one whose session snapshot has the
  image background that needs the rejected \<open>get_app_dir\<close>; the application after the first
  two steps of \<open>init\<close> on each, and in the browser.
\<close>

definition session_preset :: preset where
  "session_preset =
     \<lparr>preset_version = ''2.0'', preset_name = ''_last_session'', preset_author = ''User'',
      preset_description = ''Custom preset: _last_session'',
      preset_background = Some \<lparr>bg_type = Val ''none'', bg_path = Null\<rparr>,
      preset_overlay = Some \<lparr>ov_color = Val ''#8B4513'', ov_opacity = Val 0.2\<rparr>,
      preset_reader = Some
        \<lparr>r_opacity = Val 0.9, r_backgroundColor = Val ''#FFF8DC'',
         r_textColor = Val ''#3e2723'', r_fontFamily = Val ''monospace'', r_fontSize = Val 22,
         r_readingMode = Val ''scrolled'', r_glassmorphism = Val True, r_glassBlur = Val 16,
         r_scrollbarTrack = Val ''#222222'', r_scrollbarThumb = Val ''#8B4513''\<rparr>\<rparr>"

definition session_backend :: backend where
  "session_backend =
     Backend (Some default_prefs) (Some [''_last_session''])
       (\<lambda>n. if n = ''_last_session'' then Some session_preset else None) None (\<lambda>n. None)"

definition broken_session :: preset where
  "broken_session = broken_preset\<lparr>preset_name := ''_last_session''\<rparr>"

definition broken_session_backend :: backend where
  "broken_session_backend =
     Backend (Some default_prefs) (Some [''_last_session''])
       (\<lambda>n. if n = ''_last_session'' then Some broken_session else None) None (\<lambda>n. None)"

definition broken_session_app :: app where
  "broken_session_app = loadPresets (load_prefs (sample_app True broken_session_backend))"

definition image_session :: preset where
  "image_session = image_preset\<lparr>preset_name := ''_last_session''\<rparr>"

definition image_session_backend :: backend where
  "image_session_backend =
     Backend (Some default_prefs) (Some [''_last_session''])
       (\<lambda>n. if n = ''_last_session'' then Some image_session else None) None (\<lambda>n. None)"

definition image_session_app :: app where
  "image_session_app = loadPresets (load_prefs (sample_app True image_session_backend))"

definition session_app :: app where
  "session_app = loadPresets (load_prefs (sample_app True session_backend))"

definition browser_app :: app where
  "browser_app = loadPresets (load_prefs (sample_app False no_backend))"

text \<open>
  A backend that stores the three built-in presets and no session snapshot; the application
  after \<open>init\<close> on it, and after a click on Night Reading then; and the application after
  \<open>init\<close> on a backend whose session snapshot sets the font family only.
\<close>

definition builtin_backend :: backend where
  "builtin_backend =
     Backend None (Some BUILTIN_NAMES)
       (\<lambda>n. find (\<lambda>p. preset_name p = n) getFallbackPresets) None (\<lambda>n. None)"

definition builtin_app :: app where
  "builtin_app = loadPresets (load_prefs (sample_app True builtin_backend))"

definition started_app :: app where
  "started_app = state_of (init (sample_app True builtin_backend))"

definition partial_session :: preset where
  "partial_session =
     \<lparr>preset_version = ''1.0'', preset_name = ''_last_session'', preset_author = ''User'',
      preset_description = ''Custom preset: _last_session'',
      preset_background = None,
      preset_overlay = Some \<lparr>ov_color = Val ''#8B4513'', ov_opacity = Val 0.2\<rparr>,
      preset_reader = Some
        \<lparr>r_opacity = Undefined, r_backgroundColor = Undefined, r_textColor = Undefined,
         r_fontFamily = Val ''monospace'', r_fontSize = Undefined, r_readingMode = Undefined,
         r_glassmorphism = Undefined, r_glassBlur = Undefined,
         r_scrollbarTrack = Undefined, r_scrollbarThumb = Undefined\<rparr>\<rparr>"

definition partial_backend :: backend where
  "partial_backend =
     Backend None (Some [''_last_session''])
       (\<lambda>n. if n = ''_last_session'' then Some partial_session else None) None (\<lambda>n. None)"

definition resumed_app :: app where
  "resumed_app = state_of (init (sample_app True partial_backend))"

definition partial_app :: app where
  "partial_app = loadPresets (load_prefs (sample_app True partial_backend))"

definition failed_start_app :: app where
  "failed_start_app = state_of (init (sample_app True broken_session_backend))"

definition night_app :: app where
  "night_app = preset_clicked (getFallbackPresets ! 2) started_app"

text \<open>A reader with a document open at the position \<open>cfi\<close>.\<close>

definition open_reader :: "string \<Rightarrow> reader_state" where
  "open_reader cfi =
     (new_EpubReader page_container)\<lparr>book := True, rendition := Some \<lparr>rn_cfi = Some cfi\<rparr>\<rparr>"


section \<open>Properties of the overlay\<close>

text \<open>
  C6.  For every non-empty colour string and every real opacity, \<open>setTint\<close> followed by
  \<open>getCurrentTint\<close> returns the given colour with the opacity clamped into the interval
  from 0 to 1: the clamped value lies in that interval and is the opacity itself when that
  already does.  \<open>setTint\<close> has no failing branch, so an opacity outside the interval is
  clamped and never rejected.
\<close>

theorem setTint_getCurrentTint:
  "color \<noteq> [] \<Longrightarrow>
     getCurrentTint (setTint (Val color) (Num x) ov) = (Val color, Num (max 0 (min 1 x)))
     \<and> 0 \<le> max 0 (min 1 x) \<and> max 0 (min 1 x) \<le> 1
     \<and> (0 \<le> x \<and> x \<le> 1 \<longrightarrow> max 0 (min 1 x) = x)"
  by (simp add: getCurrentTint_def Let_def)

theorem setTint_getCurrentTint_witness:
  "''#1a1a2e'' \<noteq> [] \<and>
   getCurrentTint (setTint (Val ''#1a1a2e'') (Num 1.7) new_OverlayManager)
     = (Val ''#1a1a2e'', Num 1) \<and>
   getCurrentTint (setTint (Val ''#1a1a2e'') (Num 0.4) new_OverlayManager)
     = (Val ''#1a1a2e'', Num 0.4)"
  using setTint_getCurrentTint [of "''#1a1a2e''" "1.7" new_OverlayManager]
        setTint_getCurrentTint [of "''#1a1a2e''" "0.4" new_OverlayManager]
  by simp

text \<open>
  C10.  For every opacity argument, \<open>setTint\<close> with a \<open>null\<close>, absent or empty colour is
  \<open>clearTint\<close>: the stored tint becomes the sentinel (colour \<open>null\<close>, opacity 0) and the
  opacity argument is ignored.  Hence after any \<open>setTint\<close> or \<open>clearTint\<close> a \<open>null\<close> colour
  goes with opacity 0.
\<close>

theorem setTint_falsy_is_clearTint:
  "(\<not> truthy_str color \<longrightarrow>
       setTint color x ov = clearTint ov
       \<and> getCurrentTint (setTint color x ov) = (Null, Num 0))
   \<and> (currentColor (setTint color x ov) = Null \<longrightarrow> currentOpacity (setTint color x ov) = Num 0)
   \<and> getCurrentTint (clearTint ov) = (Null, Num 0)"
  by (cases color) (simp_all add: clearTint_def getCurrentTint_def Let_def)

theorem setTint_falsy_is_clearTint_witness:
  "\<not> truthy_str Null \<and> \<not> truthy_str (Val '''') \<and>
   getCurrentTint (setTint Null (Num 0.7) (setTint (Val ''#8B4513'') (Num 0.2) new_OverlayManager))
     = (Null, Num 0) \<and>
   getCurrentTint (setTint (Val '''') NaN (setTint (Val ''#8B4513'') (Num 0.2) new_OverlayManager))
     = (Null, Num 0) \<and>
   currentColor (setTint Null (Num 0.7) new_OverlayManager) = Null \<and>
   currentOpacity (setTint Null (Num 0.7) new_OverlayManager) = Num 0"
  using setTint_falsy_is_clearTint
          [of Null "Num 0.7" "setTint (Val ''#8B4513'') (Num 0.2) new_OverlayManager"]
        setTint_falsy_is_clearTint
          [of "Val ''''" NaN "setTint (Val ''#8B4513'') (Num 0.2) new_OverlayManager"]
        setTint_falsy_is_clearTint [of Null "Num 0.7" new_OverlayManager]
  by (simp add: clearTint_def getCurrentTint_def)


section \<open>Properties of the background\<close>

lemma file_ext_txt: "file_ext ascii_lower ''C:/books/notes.txt'' = ''txt''"
  by (simp add: file_ext_def ascii_lower_def lower_char_def)

lemma getMediaType_jpg: "getMediaType ascii_lower ''C:/pics/Forest.JPG'' = Some Image"
  by (simp add: getMediaType_def file_ext_def ascii_lower_def lower_char_def IMAGE_EXTENSIONS_def)

text \<open>
  C7.  Whatever function the platform's \<open>toLowerCase\<close> is: for every file path (a non-empty
  string) whose extension, as \<open>setMedia\<close> computes it (the text after the last dot, passed
  through \<open>toLowerCase\<close>), is neither an image nor a video extension, \<open>setMedia\<close> returns the
  state it was given: no field of the manager changes, \<open>getCurrentMedia\<close> reports the same
  path and type, and no branch of the function throws.
\<close>

theorem setMedia_unsupported:
  "filePath \<noteq> [] \<Longrightarrow>
   file_ext lc filePath \<notin> set IMAGE_EXTENSIONS \<Longrightarrow>
   file_ext lc filePath \<notin> set VIDEO_EXTENSIONS \<Longrightarrow>
     setMedia lc t (Val filePath) bg = bg
     \<and> getCurrentMedia (setMedia lc t (Val filePath) bg) = getCurrentMedia bg"
  by (simp add: getMediaType_def)

theorem setMedia_unsupported_witness:
  "''C:/books/notes.txt'' \<noteq> [] \<and>
   file_ext ascii_lower ''C:/books/notes.txt'' \<notin> set IMAGE_EXTENSIONS \<and>
   file_ext ascii_lower ''C:/books/notes.txt'' \<notin> set VIDEO_EXTENSIONS \<and>
   getCurrentMedia
     (setMedia ascii_lower True (Val ''C:/books/notes.txt'')
        (setMedia ascii_lower True (Val ''C:/pics/Forest.JPG'')
           (new_BackgroundManager page_image page_video)))
     = (Val ''C:/pics/Forest.JPG'', Some Image)"
proof -
  have a: "''C:/books/notes.txt'' \<noteq> []" by simp
  have b: "file_ext ascii_lower ''C:/books/notes.txt'' \<notin> set IMAGE_EXTENSIONS"
    by (simp add: file_ext_txt IMAGE_EXTENSIONS_def)
  have c: "file_ext ascii_lower ''C:/books/notes.txt'' \<notin> set VIDEO_EXTENSIONS"
    by (simp add: file_ext_txt VIDEO_EXTENSIONS_def)
  have d: "getCurrentMedia
             (setMedia ascii_lower True (Val ''C:/pics/Forest.JPG'')
                (new_BackgroundManager page_image page_video))
           = (Val ''C:/pics/Forest.JPG'', Some Image)"
    by (simp add: getMediaType_jpg getCurrentMedia_def Let_def hideAll_def)
  show ?thesis
    using setMedia_unsupported [OF a b c, of True
            "setMedia ascii_lower True (Val ''C:/pics/Forest.JPG'')
               (new_BackgroundManager page_image page_video)"]
          a b c d
    by simp
qed

text \<open>
  C9.  \<open>setMusic\<close> leaves the volume and the mute flag as they were: for every path (also a
  falsy one, which clears the track) \<open>getCurrentMusic\<close> reports the same volume and the same
  \<open>muted\<close> before and after, and for a non-empty path its report changes in the path only.
\<close>

theorem setMusic_keeps_volume_and_mute:
  "mi_volume (getCurrentMusic (setMusic t filePath bg)) = mi_volume (getCurrentMusic bg)
   \<and> mi_muted (getCurrentMusic (setMusic t filePath bg)) = mi_muted (getCurrentMusic bg)
   \<and> aud_volume (bgAudio (setMusic t filePath bg)) = aud_volume (bgAudio bg)
   \<and> (truthy_str filePath \<longrightarrow>
        getCurrentMusic (setMusic t filePath bg) = (getCurrentMusic bg)\<lparr>mi_path := filePath\<rparr>)"
  by (cases filePath) (simp_all add: getCurrentMusic_def clearMusic_def)

lemma getCurrentMusic_sample:
  "getCurrentMusic
     (setMusicMuted False (setMusicVolume 30 (new_BackgroundManager page_image page_video)))
     = \<lparr>mi_path = Null, mi_volume = 30, mi_muted = False\<rparr>"
  by (simp add: getCurrentMusic_def setMusicMuted_def setMusicVolume_def new_BackgroundManager_def
        math_round_def)

theorem setMusic_keeps_volume_and_mute_witness:
  "truthy_str (Val ''C:/music/rain.mp3'') \<and>
   getCurrentMusic
     (setMusic True (Val ''C:/music/rain.mp3'')
        (setMusicMuted False (setMusicVolume 30 (new_BackgroundManager page_image page_video))))
     = \<lparr>mi_path = Val ''C:/music/rain.mp3'', mi_volume = 30, mi_muted = False\<rparr>"
  using setMusic_keeps_volume_and_mute [of True "Val ''C:/music/rain.mp3''"
          "setMusicMuted False (setMusicVolume 30 (new_BackgroundManager page_image page_video))"]
  by (simp add: getCurrentMusic_sample)


section \<open>Properties of the reader\<close>

text \<open>
  What each setter does to each field of the reader.  Later proofs use these equations
  instead of unfolding the setters.
\<close>

lemma setOpacity_fields [simp]:
  shows "opacity (setOpacity x rd) = clamp 0 1 x"
    and "backgroundColor (setOpacity x rd) = backgroundColor rd"
    and "textColor (setOpacity x rd) = textColor rd"
    and "fontFamily (setOpacity x rd) = fontFamily rd"
    and "fontSize (setOpacity x rd) = fontSize rd"
    and "flow (setOpacity x rd) = flow rd"
    and "glassmorphism (setOpacity x rd) = glassmorphism rd"
    and "blur (setOpacity x rd) = blur rd"
    and "scrollbarTrack (setOpacity x rd) = scrollbarTrack rd"
    and "scrollbarThumb (setOpacity x rd) = scrollbarThumb rd"
    and "book (setOpacity x rd) = book rd"
    and "rendition (setOpacity x rd) = rendition rd"
    and "surface_log (setOpacity x rd) = surface_log rd"
  by (simp_all add: setOpacity_def updateContainerStyle_def log_op_def Let_def)

lemma setBackgroundColor_fields [simp]:
  shows "opacity (setBackgroundColor c rd) = opacity rd"
    and "backgroundColor (setBackgroundColor c rd) = c"
    and "textColor (setBackgroundColor c rd) = textColor rd"
    and "fontFamily (setBackgroundColor c rd) = fontFamily rd"
    and "fontSize (setBackgroundColor c rd) = fontSize rd"
    and "flow (setBackgroundColor c rd) = flow rd"
    and "glassmorphism (setBackgroundColor c rd) = glassmorphism rd"
    and "blur (setBackgroundColor c rd) = blur rd"
    and "scrollbarTrack (setBackgroundColor c rd) = scrollbarTrack rd"
    and "scrollbarThumb (setBackgroundColor c rd) = scrollbarThumb rd"
    and "book (setBackgroundColor c rd) = book rd"
    and "rendition (setBackgroundColor c rd) = rendition rd"
    and "surface_log (setBackgroundColor c rd) = surface_log rd"
  by (simp_all add: setBackgroundColor_def updateContainerStyle_def log_op_def Let_def)

lemma setTextColor_fields [simp]:
  shows "opacity (setTextColor c rd) = opacity rd"
    and "backgroundColor (setTextColor c rd) = backgroundColor rd"
    and "textColor (setTextColor c rd) = c"
    and "fontFamily (setTextColor c rd) = fontFamily rd"
    and "fontSize (setTextColor c rd) = fontSize rd"
    and "flow (setTextColor c rd) = flow rd"
    and "glassmorphism (setTextColor c rd) = glassmorphism rd"
    and "blur (setTextColor c rd) = blur rd"
    and "scrollbarTrack (setTextColor c rd) = scrollbarTrack rd"
    and "scrollbarThumb (setTextColor c rd) = scrollbarThumb rd"
    and "book (setTextColor c rd) = book rd"
    and "rendition (setTextColor c rd) = rendition rd"
    and "surface_log (setTextColor c rd) = (if rendition rd \<noteq> None then surface_log rd @ [ThemesOverride ''color'' c] else surface_log rd)"
  by (simp_all add: setTextColor_def updateContainerStyle_def log_op_def Let_def)

lemma setGlassmorphism_fields [simp]:
  shows "opacity (setGlassmorphism e rd) = opacity rd"
    and "backgroundColor (setGlassmorphism e rd) = backgroundColor rd"
    and "textColor (setGlassmorphism e rd) = textColor rd"
    and "fontFamily (setGlassmorphism e rd) = fontFamily rd"
    and "fontSize (setGlassmorphism e rd) = fontSize rd"
    and "flow (setGlassmorphism e rd) = flow rd"
    and "glassmorphism (setGlassmorphism e rd) = e"
    and "blur (setGlassmorphism e rd) = blur rd"
    and "scrollbarTrack (setGlassmorphism e rd) = scrollbarTrack rd"
    and "scrollbarThumb (setGlassmorphism e rd) = scrollbarThumb rd"
    and "book (setGlassmorphism e rd) = book rd"
    and "rendition (setGlassmorphism e rd) = rendition rd"
    and "surface_log (setGlassmorphism e rd) = surface_log rd"
  by (simp_all add: setGlassmorphism_def updateContainerStyle_def log_op_def Let_def)

lemma setBlur_fields [simp]:
  shows "opacity (setBlur px rd) = opacity rd"
    and "backgroundColor (setBlur px rd) = backgroundColor rd"
    and "textColor (setBlur px rd) = textColor rd"
    and "fontFamily (setBlur px rd) = fontFamily rd"
    and "fontSize (setBlur px rd) = fontSize rd"
    and "flow (setBlur px rd) = flow rd"
    and "glassmorphism (setBlur px rd) = glassmorphism rd"
    and "blur (setBlur px rd) = clamp 0 40 px"
    and "scrollbarTrack (setBlur px rd) = scrollbarTrack rd"
    and "scrollbarThumb (setBlur px rd) = scrollbarThumb rd"
    and "book (setBlur px rd) = book rd"
    and "rendition (setBlur px rd) = rendition rd"
    and "surface_log (setBlur px rd) = surface_log rd"
  by (simp_all add: setBlur_def updateContainerStyle_def log_op_def Let_def)

lemma setFontFamily_fields [simp]:
  shows "opacity (setFontFamily f rd) = opacity rd"
    and "backgroundColor (setFontFamily f rd) = backgroundColor rd"
    and "textColor (setFontFamily f rd) = textColor rd"
    and "fontFamily (setFontFamily f rd) = f"
    and "fontSize (setFontFamily f rd) = fontSize rd"
    and "flow (setFontFamily f rd) = flow rd"
    and "glassmorphism (setFontFamily f rd) = glassmorphism rd"
    and "blur (setFontFamily f rd) = blur rd"
    and "scrollbarTrack (setFontFamily f rd) = scrollbarTrack rd"
    and "scrollbarThumb (setFontFamily f rd) = scrollbarThumb rd"
    and "book (setFontFamily f rd) = book rd"
    and "rendition (setFontFamily f rd) = rendition rd"
    and "surface_log (setFontFamily f rd) = (if rendition rd \<noteq> None then surface_log rd @ [ThemesOverride ''font-family'' (family_css f)] else surface_log rd)"
  by (simp_all add: setFontFamily_def updateContainerStyle_def log_op_def Let_def)

lemma setFontSize_fields [simp]:
  shows "opacity (setFontSize sz rd) = opacity rd"
    and "backgroundColor (setFontSize sz rd) = backgroundColor rd"
    and "textColor (setFontSize sz rd) = textColor rd"
    and "fontFamily (setFontSize sz rd) = fontFamily rd"
    and "fontSize (setFontSize sz rd) = clamp 12 32 sz"
    and "flow (setFontSize sz rd) = flow rd"
    and "glassmorphism (setFontSize sz rd) = glassmorphism rd"
    and "blur (setFontSize sz rd) = blur rd"
    and "scrollbarTrack (setFontSize sz rd) = scrollbarTrack rd"
    and "scrollbarThumb (setFontSize sz rd) = scrollbarThumb rd"
    and "book (setFontSize sz rd) = book rd"
    and "rendition (setFontSize sz rd) = rendition rd"
    and "surface_log (setFontSize sz rd) = (if rendition rd \<noteq> None then surface_log rd @ [ThemesFontSize (clamp 12 32 sz)] else surface_log rd)"
  by (simp_all add: setFontSize_def updateContainerStyle_def log_op_def Let_def)

lemma applyIframeStyles_fields [simp]:
  shows "opacity (applyIframeStyles rd) = opacity rd"
    and "backgroundColor (applyIframeStyles rd) = backgroundColor rd"
    and "textColor (applyIframeStyles rd) = textColor rd"
    and "fontFamily (applyIframeStyles rd) = fontFamily rd"
    and "fontSize (applyIframeStyles rd) = fontSize rd"
    and "flow (applyIframeStyles rd) = flow rd"
    and "glassmorphism (applyIframeStyles rd) = glassmorphism rd"
    and "blur (applyIframeStyles rd) = blur rd"
    and "scrollbarTrack (applyIframeStyles rd) = scrollbarTrack rd"
    and "scrollbarThumb (applyIframeStyles rd) = scrollbarThumb rd"
    and "book (applyIframeStyles rd) = book rd"
    and "rendition (applyIframeStyles rd) = rendition rd"
    and "surface_log (applyIframeStyles rd) = (if rendition rd \<noteq> None then surface_log rd @ [ThemesDefault (flow rd = ''scrolled'') (scrollbarTrack rd) (scrollbarThumb rd)] else surface_log rd)"
  by (simp_all add: applyIframeStyles_def updateContainerStyle_def log_op_def Let_def)

lemma applyContainerMode_fields [simp]:
  shows "opacity (applyContainerMode rd) = opacity rd"
    and "backgroundColor (applyContainerMode rd) = backgroundColor rd"
    and "textColor (applyContainerMode rd) = textColor rd"
    and "fontFamily (applyContainerMode rd) = fontFamily rd"
    and "fontSize (applyContainerMode rd) = fontSize rd"
    and "flow (applyContainerMode rd) = flow rd"
    and "glassmorphism (applyContainerMode rd) = glassmorphism rd"
    and "blur (applyContainerMode rd) = blur rd"
    and "scrollbarTrack (applyContainerMode rd) = scrollbarTrack rd"
    and "scrollbarThumb (applyContainerMode rd) = scrollbarThumb rd"
    and "book (applyContainerMode rd) = book rd"
    and "rendition (applyContainerMode rd) = rendition rd"
    and "surface_log (applyContainerMode rd) = surface_log rd"
  by (simp_all add: applyContainerMode_def updateContainerStyle_def log_op_def Let_def)

lemma updateContainerStyle_fields [simp]:
  shows "opacity (updateContainerStyle rd) = opacity rd"
    and "backgroundColor (updateContainerStyle rd) = backgroundColor rd"
    and "textColor (updateContainerStyle rd) = textColor rd"
    and "fontFamily (updateContainerStyle rd) = fontFamily rd"
    and "fontSize (updateContainerStyle rd) = fontSize rd"
    and "flow (updateContainerStyle rd) = flow rd"
    and "glassmorphism (updateContainerStyle rd) = glassmorphism rd"
    and "blur (updateContainerStyle rd) = blur rd"
    and "scrollbarTrack (updateContainerStyle rd) = scrollbarTrack rd"
    and "scrollbarThumb (updateContainerStyle rd) = scrollbarThumb rd"
    and "book (updateContainerStyle rd) = book rd"
    and "rendition (updateContainerStyle rd) = rendition rd"
    and "surface_log (updateContainerStyle rd) = surface_log rd"
  by (simp_all add: updateContainerStyle_def log_op_def Let_def)

lemma clamp_idem [simp]: "lo \<le> hi \<Longrightarrow> clamp lo hi (clamp lo hi x) = clamp lo hi x"
  by (cases x) simp_all

lemma setFlow_fields [simp]:
  shows "opacity (setFlow fl rd) = opacity rd"
    and "backgroundColor (setFlow fl rd) = backgroundColor rd"
    and "textColor (setFlow fl rd) = textColor rd"
    and "fontFamily (setFlow fl rd) = fontFamily rd"
    and "fontSize (setFlow fl rd) = (if book rd \<and> rendition rd \<noteq> None then clamp 12 32 (fontSize rd) else fontSize rd)"
    and "flow (setFlow fl rd) = fl"
    and "glassmorphism (setFlow fl rd) = glassmorphism rd"
    and "blur (setFlow fl rd) = blur rd"
    and "scrollbarTrack (setFlow fl rd) = scrollbarTrack rd"
    and "scrollbarThumb (setFlow fl rd) = scrollbarThumb rd"
    and "book (setFlow fl rd) = book rd"
    and "rendition (setFlow fl rd) = rendition rd"
  by (cases "rendition rd"; simp add: setFlow_def Let_def log_op_def)+

lemma setFlow_surface_log:
  "surface_log (setFlow fl rd) =
     (if book rd \<and> rendition rd \<noteq> None
      then surface_log rd @
           [RenditionDestroy,
            RenderTo (fst (getRenderOptions (rd\<lparr>flow := fl\<rparr>))) (snd (getRenderOptions (rd\<lparr>flow := fl\<rparr>))),
            ThemesDefault (fl = ''scrolled'') (scrollbarTrack rd) (scrollbarThumb rd),
            ThemesOverride ''font-family'' (family_css (fontFamily rd)),
            ThemesFontSize (clamp 12 32 (fontSize rd)),
            ThemesOverride ''color'' (textColor rd),
            Display (rn_cfi (the (rendition rd)))]
      else surface_log rd)"
  by (cases "rendition rd"; simp add: setFlow_def Let_def log_op_def getRenderOptions_def)

text \<open>
  C8.  For every flow value, when no document is open (no book, or no rendition),
  \<open>setFlow\<close> stores the flow and does nothing else: no call on the rendering surface is
  made (the log of such calls is as before), no rendition is created, and the container is
  untouched.
\<close>

theorem setFlow_without_document:
  "\<not> book rd \<or> rendition rd = None \<Longrightarrow>
     setFlow fl rd = rd\<lparr>flow := fl\<rparr>
     \<and> flow (setFlow fl rd) = fl
     \<and> surface_log (setFlow fl rd) = surface_log rd
     \<and> rendition (setFlow fl rd) = rendition rd
     \<and> container (setFlow fl rd) = container rd"
  by (cases "rendition rd") (simp_all add: setFlow_def Let_def)

theorem setFlow_without_document_witness:
  "book (new_EpubReader page_container) = False \<and>
   rendition (new_EpubReader page_container) = None \<and>
   flow (setFlow ''scrolled'' (new_EpubReader page_container)) = ''scrolled'' \<and>
   surface_log (setFlow ''scrolled'' (new_EpubReader page_container)) = []"
  using setFlow_without_document [of "new_EpubReader page_container" "''scrolled''"]
  by (simp add: new_EpubReader_def)

text \<open>With a document open the same call tears the surface down and builds it again.\<close>

lemma setFlow_with_document:
  "surface_log (setFlow ''scrolled'' (open_reader ''epubcfi(/6/4)'')) =
     [RenditionDestroy,
      RenderTo ''scrolled-doc'' (Some ''default''),
      ThemesDefault True (Val ''transparent'') (Val ''rgba(255, 255, 255, 0.25)''),
      ThemesOverride ''font-family'' ''Georgia, 'Times New Roman', serif'',
      ThemesFontSize (Num 18),
      ThemesOverride ''color'' ''#1a1a1a'',
      Display (Some ''epubcfi(/6/4)'')]"
  by (simp add: setFlow_surface_log getRenderOptions_def open_reader_def new_EpubReader_def
        family_css_def familyMap_def)


section \<open>Properties of the debounced progress saving\<close>









text \<open>Events further apart than the window are saved one by one.\<close>

lemma slow_events_two_writes:
  "updates (fire_pending sample_env
              (run_events sample_env slow_events (initial_progress (Val ''book-1''))))
     = [(''book-1'', ''epubcfi(/6/4)'', 0.125), (''book-1'', ''epubcfi(/6/8)'', 0.25)]"
  by (simp add: slow_events_def sample_env_def initial_progress_def fire_pending_def fire_def
        fire_due_def on_relocated_def setTimeout_def clearTimeout_def save_callback_def
        updateProgress_def Let_def)



section \<open>Properties of applyPreset\<close>

lemma setScrollbarColors_fields [simp]:
  shows "opacity (state_of (setScrollbarColors track thumb rd)) = opacity rd"
    and "backgroundColor (state_of (setScrollbarColors track thumb rd)) = backgroundColor rd"
    and "textColor (state_of (setScrollbarColors track thumb rd)) = textColor rd"
    and "fontFamily (state_of (setScrollbarColors track thumb rd)) = fontFamily rd"
    and "fontSize (state_of (setScrollbarColors track thumb rd)) = fontSize rd"
    and "flow (state_of (setScrollbarColors track thumb rd)) = flow rd"
    and "glassmorphism (state_of (setScrollbarColors track thumb rd)) = glassmorphism rd"
    and "blur (state_of (setScrollbarColors track thumb rd)) = blur rd"
    and "scrollbarTrack (state_of (setScrollbarColors track thumb rd)) = pick track (scrollbarTrack rd)"
    and "scrollbarThumb (state_of (setScrollbarColors track thumb rd)) = pick thumb (scrollbarThumb rd)"
    and "book (state_of (setScrollbarColors track thumb rd)) = book rd"
    and "rendition (state_of (setScrollbarColors track thumb rd)) = rendition rd"
  by (simp_all add: setScrollbarColors_def Let_def pick_def do_if_def applyIframeStyles_def
        log_op_def split: js.splits)

lemma setScrollbarColors_completion:
  "setScrollbarColors track thumb rd =
     (if is_val (pick thumb (scrollbarThumb rd))
      then Normal (state_of (setScrollbarColors track thumb rd))
      else Throws TypeError (state_of (setScrollbarColors track thumb rd)))"
  by (simp add: setScrollbarColors_def Let_def pick_def do_if_def split: js.splits)

lemma do_if_apply: "P (do_if c f s) = (if c then P (f s) else P s)"
  by (simp add: do_if_def)

lemmas do_if_fields =
  do_if_apply [where P = opacity] do_if_apply [where P = backgroundColor]
  do_if_apply [where P = textColor] do_if_apply [where P = fontFamily]
  do_if_apply [where P = fontSize] do_if_apply [where P = flow]
  do_if_apply [where P = glassmorphism] do_if_apply [where P = blur]
  do_if_apply [where P = scrollbarTrack] do_if_apply [where P = scrollbarThumb]
  do_if_apply [where P = book] do_if_apply [where P = rendition]

lemma or_str_if: "or_str x d = (if truthy_str x then str_of x else d)"
  by (cases x) simp_all

lemma apply_reader_fields:
  shows "opacity (state_of (apply_reader r rd)) =
           (if r_opacity r \<noteq> Undefined then clamp 0 1 (to_number (r_opacity r)) else opacity rd)"
    and "backgroundColor (state_of (apply_reader r rd)) = or_str (r_backgroundColor r) (backgroundColor rd)"
    and "textColor (state_of (apply_reader r rd)) = or_str (r_textColor r) (textColor rd)"
    and "fontFamily (state_of (apply_reader r rd)) =
           (if truthy_str (r_fontFamily r) then r_fontFamily r else fontFamily rd)"
    and "flow (state_of (apply_reader r rd)) = or_str (r_readingMode r) (flow rd)"
    and "glassmorphism (state_of (apply_reader r rd)) =
           (if r_glassmorphism r \<noteq> Undefined then r_glassmorphism r else glassmorphism rd)"
    and "blur (state_of (apply_reader r rd)) =
           (if r_glassBlur r \<noteq> Undefined then clamp 0 40 (to_number (r_glassBlur r)) else blur rd)"
    and "scrollbarTrack (state_of (apply_reader r rd)) =
           (if truthy_str (r_scrollbarTrack r) \<or> truthy_str (r_scrollbarThumb r)
            then pick (r_scrollbarTrack r) (scrollbarTrack rd) else scrollbarTrack rd)"
    and "scrollbarThumb (state_of (apply_reader r rd)) =
           (if truthy_str (r_scrollbarTrack r) \<or> truthy_str (r_scrollbarThumb r)
            then pick (r_scrollbarThumb r) (scrollbarThumb rd) else scrollbarThumb rd)"
    and "book (state_of (apply_reader r rd)) = book rd"
    and "rendition (state_of (apply_reader r rd)) = rendition rd"
  unfolding apply_reader_def Let_def
  by (simp_all cong: if_cong add: if_distrib [where f = state_of] do_if_fields or_str_if)

lemma apply_reader_fontSize:
  "fontSize (state_of (apply_reader r rd)) =
     (if truthy_real (r_fontSize r) then clamp 12 32 (to_number (r_fontSize r))
      else if truthy_str (r_readingMode r) \<and> book rd \<and> rendition rd \<noteq> None
           then clamp 12 32 (fontSize rd) else fontSize rd)"
  unfolding apply_reader_def Let_def
  by (cases "rendition rd")
     (simp_all cong: if_cong add: if_distrib [where f = state_of] do_if_fields)

lemma apply_reader_completion:
  "apply_reader r rd =
     (if (truthy_str (r_scrollbarTrack r) \<or> truthy_str (r_scrollbarThumb r))
         \<and> \<not> is_val (pick (r_scrollbarThumb r) (scrollbarThumb rd))
      then Throws TypeError (state_of (apply_reader r rd))
      else Normal (state_of (apply_reader r rd)))"
  unfolding apply_reader_def Let_def
  by (subst setScrollbarColors_completion)
     (simp cong: if_cong add: do_if_fields)

lemma background_step:
  "(case preset_background p of None \<Rightarrow> Normal w | Some b \<Rightarrow> apply_background b w) =
     (if background_throws p w then Throws Rejected w
      else Normal (w\<lparr>bgManager := bg_after p w\<rparr>))"
proof (cases "preset_background p")
  case None
  then show ?thesis by (simp add: background_throws_def bg_after_def)
next
  case (Some b)
  then show ?thesis
    by (cases "bg_path b"; cases "get_app_dir (backend w)";
        cases "bg_type b = Val ''media''"; cases "bg_type b = Val ''image''"; cases "isTauri w")
       (simp_all add: apply_background_def background_throws_def bg_after_def
          del: setMedia.simps)
qed

lemma reader_step:
  "(case preset_reader p of None \<Rightarrow> Normal (reader w) | Some r \<Rightarrow> apply_reader r (reader w)) =
     (if reader_throws p (reader w) then Throws TypeError (rd_after p w)
      else Normal (rd_after p w))"
proof (cases "preset_reader p")
  case None
  then show ?thesis by (simp add: reader_throws_def rd_after_def)
next
  case (Some r)
  obtain c where c: "apply_reader r (reader w) = c" by simp
  have "c = (if reader_throws p (reader w) then Throws TypeError (state_of c)
             else Normal (state_of c))"
    using apply_reader_completion [of r "reader w"] Some unfolding c
    by (simp add: reader_throws_def)
  then show ?thesis
    using Some c by (auto simp add: rd_after_def split: if_splits)
qed

lemma overlay_step:
  "(case preset_overlay p of None \<Rightarrow> w | Some ov \<Rightarrow> apply_overlay ov w) =
     w\<lparr>overlayManager := ov_after p w\<rparr>"
  by (cases "preset_overlay p") (simp_all add: ov_after_def apply_overlay_def)

lemma after_frames [simp]:
  "ov_after p (w\<lparr>bgManager := g\<rparr>) = ov_after p w"
  "rd_after p (w\<lparr>bgManager := g\<rparr>) = rd_after p w"
  "rd_after p (w\<lparr>overlayManager := v\<rparr>) = rd_after p w"
  by (simp_all add: ov_after_def rd_after_def cong: option.case_cong)

lemma apply_found_eq:
  "apply_found p w =
     (if background_throws p w then apply_failed w
      else if reader_throws p (reader w)
      then apply_failed (w\<lparr>bgManager := bg_after p w, overlayManager := ov_after p w,
                            reader := rd_after p w\<rparr>)
      else (True, w\<lparr>bgManager := bg_after p w, overlayManager := ov_after p w,
                     reader := rd_after p w, currentPreset := Some p\<rparr>))"
  unfolding apply_found_def Let_def background_step overlay_step
  by (simp add: reader_step)

lemma appearance_eq:
  "appearance rd =
     (opacity rd, backgroundColor rd, textColor rd, fontFamily rd, fontSize rd, flow rd,
      glassmorphism rd, blur rd, scrollbarTrack rd, scrollbarThumb rd)"
  by (simp add: appearance_def)

lemma rd_after_appearance:
  "preset_reader p = Some r \<Longrightarrow> appearance (rd_after p w) = applied_appearance r (reader w)"
  unfolding appearance_eq applied_appearance_def
  by (simp add: rd_after_def apply_reader_fields apply_reader_fontSize pick_def or_str_if)

lemma rd_after_none: "preset_reader p = None \<Longrightarrow> rd_after p w = reader w"
  by (simp add: rd_after_def)

lemma applyPreset_resolved:
  "applyPreset nm w =
     (case resolve_preset nm w of None \<Rightarrow> (False, w) | Some p \<Rightarrow> apply_found p w)"
  by (simp add: applyPreset_def resolve_preset_def split: option.splits)

lemma loadPresets_frame [simp]:
  "toLowerCase (loadPresets w) = toLowerCase w"
  "round100 (loadPresets w) = round100 w"
  "isTauri (loadPresets w) = isTauri w"
  "backend (loadPresets w) = backend w"
  "reader (loadPresets w) = reader w"
  "bgManager (loadPresets w) = bgManager w"
  "overlayManager (loadPresets w) = overlayManager w"
  "currentPreset (loadPresets w) = currentPreset w"
  "currentPrefs (loadPresets w) = currentPrefs w"
  "toasts (loadPresets w) = toasts w"
  by (simp_all add: loadPresets_def split: option.splits)

lemma initial_app_fields [simp]:
  "toLowerCase (initial_app lc rp t b) = lc"
  "round100 (initial_app lc rp t b) = rp"
  "isTauri (initial_app lc rp t b) = t"
  "backend (initial_app lc rp t b) = b"
  "reader (initial_app lc rp t b) = new_EpubReader page_container"
  "bgManager (initial_app lc rp t b) = new_BackgroundManager page_image page_video"
  "overlayManager (initial_app lc rp t b) = new_OverlayManager"
  "currentPreset (initial_app lc rp t b) = None"
  "presets (initial_app lc rp t b) = []"
  "currentPrefs (initial_app lc rp t b) = default_prefs"
  "toasts (initial_app lc rp t b) = []"
  by (simp_all add: initial_app_def)

lemma broken_app_presets: "presets broken_app = [broken_preset]"
  by (simp add: broken_app_def loadPresets_def broken_backend_def)

lemma broken_find:
  "find (\<lambda>p. preset_name p = ''Broken'') (presets broken_app) = Some broken_preset"
  by (simp add: broken_app_presets broken_preset_def)

lemma broken_apply:
  "applyPreset ''Broken'' broken_app =
     apply_failed (broken_app\<lparr>bgManager := bg_after broken_preset broken_app,
                              overlayManager := ov_after broken_preset broken_app,
                              reader := rd_after broken_preset broken_app\<rparr>)"
  by (simp add: applyPreset_def broken_find apply_found_eq background_throws_def
        reader_throws_def pick_def)
     (simp add: broken_preset_def pick_def)

lemma apply_failed_fields [simp]:
  "fst (apply_failed w) = False"
  "toLowerCase (snd (apply_failed w)) = toLowerCase w"
  "round100 (snd (apply_failed w)) = round100 w"
  "toasts (snd (apply_failed w)) = toasts w @ [(''Failed to apply preset'', ''error'')]"
  "isTauri (snd (apply_failed w)) = isTauri w"
  "backend (snd (apply_failed w)) = backend w"
  "reader (snd (apply_failed w)) = reader w"
  "bgManager (snd (apply_failed w)) = bgManager w"
  "overlayManager (snd (apply_failed w)) = overlayManager w"
  "currentPreset (snd (apply_failed w)) = currentPreset w"
  "presets (snd (apply_failed w)) = presets w"
  "currentPrefs (snd (apply_failed w)) = currentPrefs w"
  by (simp_all add: apply_failed_def showToast_def)

text \<open>
  C1, as stated, fails.  The stored preset below is applied up to its last setter call,
  \<open>setScrollbarColors\<close> with a \<open>null\<close> thumb, which throws: \<open>applyPreset\<close> returns
  \<open>false\<close>, but the overlay and the reader keep what the earlier setters wrote.
\<close>

theorem applyPreset_partial_mutation:
  "fst (applyPreset ''Broken'' broken_app) = False \<and>
   getCurrentTint (overlayManager broken_app) = (Null, Num 0) \<and>
   getCurrentTint (overlayManager (snd (applyPreset ''Broken'' broken_app)))
     = (Val ''#1a1a2e'', Num 0.4) \<and>
   textColor (reader broken_app) = ''#1a1a1a'' \<and>
   textColor (reader (snd (applyPreset ''Broken'' broken_app))) = ''#e0e0e0''"
  by (simp add: broken_apply apply_failed_def showToast_def ov_after_def rd_after_def
        apply_reader_fields getCurrentTint_def broken_preset_def Let_def)
     (simp add: broken_app_def new_OverlayManager_def new_EpubReader_def)


lemma unknown_name_sample:
  "resolve_preset ''Nope'' (loadPresets (sample_app False no_backend)) = None"
  by (simp add: resolve_preset_def loadPresets_def getFallbackPresets_def)

lemma image_resolve: "resolve_preset ''Forest'' image_app = Some image_preset"
  by (simp add: resolve_preset_def image_app_def loadPresets_def image_backend_def
        image_preset_def)

lemma image_throws: "background_throws image_preset image_app"
  by (simp add: background_throws_def image_preset_def image_app_def image_backend_def)

lemma stored_resolve:
  "resolve_preset ''Broken'' (sample_app True broken_backend) = Some broken_preset"
  by (simp add: resolve_preset_def broken_backend_def)

lemma stored_throws:
  "background_throws broken_preset (sample_app True broken_backend) = False"
  "reader_throws broken_preset (reader (sample_app True broken_backend))"
  "preset_reader broken_preset =
     Some \<lparr>r_opacity = Val 0.85, r_backgroundColor = Val ''#2d2d2d'',
           r_textColor = Val ''#e0e0e0'', r_fontFamily = Val ''serif'', r_fontSize = Val 20,
           r_readingMode = Val ''paginated'', r_glassmorphism = Val False, r_glassBlur = Val 8,
           r_scrollbarTrack = Val ''#1a1a1a'', r_scrollbarThumb = Null\<rparr>"
  by (simp_all add: background_throws_def reader_throws_def broken_preset_def pick_def)

lemma night_resolve:
  "resolve_preset ''Night Reading'' (loadPresets (sample_app False no_backend))
     = Some (getFallbackPresets ! 2)"
  by (simp add: resolve_preset_def loadPresets_def getFallbackPresets_def)

lemma night_runs:
  "background_throws (getFallbackPresets ! 2) (loadPresets (sample_app False no_backend)) = False"
  "reader_throws (getFallbackPresets ! 2) (reader (loadPresets (sample_app False no_backend)))
     = False"
  by (simp_all add: background_throws_def reader_throws_def getFallbackPresets_def pick_def)

text \<open>
  C1, amended.  Let \<open>p\<close> be the preset that the name resolves to (the cached one, else the
  one the backend loads).  When the name resolves to none, \<open>applyPreset\<close> returns \<open>false\<close>
  and leaves the whole application unchanged.  When \<open>get_app_dir\<close> rejects at the background
  step, it returns \<open>false\<close> and the application is unchanged but for the error toast.  When
  the background step runs and \<open>setScrollbarColors\<close> then throws, it returns \<open>false\<close> with
  the error toast, and what the setters wrote before the throw stays: the background and
  the overlay are as the preset sets them, and the reader has the appearance that the
  preset's reader section gives it.  In the remaining case it returns \<open>true\<close>.  Whenever it
  returns \<open>false\<close>, the current preset, the cached presets and the preferences are as
  before.
\<close>

theorem applyPreset_failure:
  "(resolve_preset nm w = None \<longrightarrow> applyPreset nm w = (False, w))
   \<and> (\<not> fst (applyPreset nm w)
      \<longrightarrow> currentPreset (snd (applyPreset nm w)) = currentPreset w
          \<and> presets (snd (applyPreset nm w)) = presets w
          \<and> currentPrefs (snd (applyPreset nm w)) = currentPrefs w)
   \<and> (resolve_preset nm w = Some p \<and> background_throws p w
      \<longrightarrow> applyPreset nm w = (False, showToast ''Failed to apply preset'' ''error'' w))
   \<and> (resolve_preset nm w = Some p \<and> \<not> background_throws p w \<and> reader_throws p (reader w)
      \<longrightarrow> \<not> fst (applyPreset nm w)
          \<and> bgManager (snd (applyPreset nm w)) = bg_after p w
          \<and> overlayManager (snd (applyPreset nm w)) = ov_after p w
          \<and> (\<forall>r. preset_reader p = Some r \<longrightarrow>
                 appearance (reader (snd (applyPreset nm w))) = applied_appearance r (reader w))
          \<and> toasts (snd (applyPreset nm w))
              = toasts w @ [(''Failed to apply preset'', ''error'')])
   \<and> (resolve_preset nm w = Some p \<and> \<not> background_throws p w \<and> \<not> reader_throws p (reader w)
      \<longrightarrow> fst (applyPreset nm w))"
  by (auto simp add: applyPreset_resolved apply_found_eq rd_after_appearance apply_failed_def
        showToast_def split: option.splits)

theorem applyPreset_failure_witness:
  "resolve_preset ''Nope'' (loadPresets (sample_app False no_backend)) = None \<and>
   applyPreset ''Nope'' (loadPresets (sample_app False no_backend))
     = (False, loadPresets (sample_app False no_backend)) \<and>
   resolve_preset ''Forest'' image_app = Some image_preset \<and>
   background_throws image_preset image_app \<and>
   applyPreset ''Forest'' image_app
     = (False, showToast ''Failed to apply preset'' ''error'' image_app) \<and>
   resolve_preset ''Broken'' (sample_app True broken_backend) = Some broken_preset \<and>
   background_throws broken_preset (sample_app True broken_backend) = False \<and>
   reader_throws broken_preset (reader (sample_app True broken_backend)) \<and>
   fst (applyPreset ''Broken'' (sample_app True broken_backend)) = False \<and>
   currentPrefs (snd (applyPreset ''Broken'' (sample_app True broken_backend))) = default_prefs \<and>
   getCurrentTint (overlayManager (snd (applyPreset ''Broken'' (sample_app True broken_backend))))
     = (Val ''#1a1a2e'', Num 0.4) \<and>
   appearance (reader (snd (applyPreset ''Broken'' (sample_app True broken_backend))))
     = (Num 0.85, ''#2d2d2d'', ''#e0e0e0'', Val ''serif'', Num 20, ''paginated'', Val False, Num 8,
        Val ''#1a1a1a'', Null) \<and>
   toasts (snd (applyPreset ''Broken'' (sample_app True broken_backend)))
     = [(''Failed to apply preset'', ''error'')] \<and>
   resolve_preset ''Night Reading'' (loadPresets (sample_app False no_backend))
     = Some (getFallbackPresets ! 2) \<and>
   fst (applyPreset ''Night Reading'' (loadPresets (sample_app False no_backend)))"
proof -
  have a: "applyPreset ''Nope'' (loadPresets (sample_app False no_backend))
             = (False, loadPresets (sample_app False no_backend))"
    using applyPreset_failure [of "''Nope''" "loadPresets (sample_app False no_backend)"]
          unknown_name_sample
    by simp
  have b: "applyPreset ''Forest'' image_app
             = (False, showToast ''Failed to apply preset'' ''error'' image_app)"
    using applyPreset_failure [of "''Forest''" image_app image_preset] image_resolve image_throws
    by simp
  let ?w = "snd (applyPreset ''Broken'' (sample_app True broken_backend))"
  have c: "fst (applyPreset ''Broken'' (sample_app True broken_backend)) = False
           \<and> currentPrefs ?w = currentPrefs (sample_app True broken_backend)
           \<and> overlayManager ?w = ov_after broken_preset (sample_app True broken_backend)
           \<and> appearance (reader ?w)
               = applied_appearance
                   \<lparr>r_opacity = Val 0.85, r_backgroundColor = Val ''#2d2d2d'',
                    r_textColor = Val ''#e0e0e0'', r_fontFamily = Val ''serif'',
                    r_fontSize = Val 20, r_readingMode = Val ''paginated'',
                    r_glassmorphism = Val False, r_glassBlur = Val 8,
                    r_scrollbarTrack = Val ''#1a1a1a'', r_scrollbarThumb = Null\<rparr>
                   (reader (sample_app True broken_backend))
           \<and> toasts ?w
               = toasts (sample_app True broken_backend) @ [(''Failed to apply preset'', ''error'')]"
    using applyPreset_failure [of "''Broken''" "sample_app True broken_backend" broken_preset]
          stored_resolve stored_throws
    by simp
  have d: "fst (applyPreset ''Night Reading'' (loadPresets (sample_app False no_backend)))"
    using applyPreset_failure [of "''Night Reading''" "loadPresets (sample_app False no_backend)"
            "getFallbackPresets ! 2"]
          night_resolve night_runs
    by simp
  have e: "getCurrentTint (ov_after broken_preset (sample_app True broken_backend))
             = (Val ''#1a1a2e'', Num 0.4)"
    by (simp add: ov_after_def broken_preset_def getCurrentTint_def Let_def new_OverlayManager_def)
  show ?thesis
    using a b c d e unknown_name_sample image_resolve image_throws stored_resolve stored_throws
          night_resolve
    by (simp add: applied_appearance_def new_EpubReader_def)
qed


section \<open>Properties of the preset list\<close>

lemma fallback_names: "map preset_name getFallbackPresets = BUILTIN_NAMES"
  by (simp add: getFallbackPresets_def BUILTIN_NAMES_def)

lemma fallback_listing:
  "map preset_name (renderPresetList (filter (\<lambda>p. preset_name p \<noteq> ''_last_session'') getFallbackPresets))
     = BUILTIN_NAMES"
  by (simp add: getFallbackPresets_def BUILTIN_NAMES_def renderPresetList_def)

text \<open>
  C2, as stated, fails.  When the backend lists no preset, \<open>loadPresets\<close> ends with an
  empty list: the built-in presets are not in it.  And \<open>deletePreset\<close> has no check of the
  name: for \<open>Cozy Reading\<close> the request goes to the backend like any other, and when the
  backend carries it out the stored list has lost the preset and the toast reports success.
\<close>

theorem builtins_missing_and_deleted:
  "isTauri (sample_app True empty_backend) \<and>
   list_presets (backend (sample_app True empty_backend)) = Some [] \<and>
   presets (loadPresets (sample_app True empty_backend)) = [] \<and>
   getPresets (loadPresets (sample_app True empty_backend)) = [] \<and>
   map preset_name (presets stored_app) = [''Cozy Reading'', ''Mine''] \<and>
   list_presets (backend stored_app) = Some [''Cozy Reading'', ''Mine''] \<and>
   list_presets (backend (deletePreset ''Cozy Reading'' stored_app)) = Some [''Mine''] \<and>
   map preset_name (presets (deletePreset ''Cozy Reading'' stored_app)) = [''Mine''] \<and>
   toasts (deletePreset ''Cozy Reading'' stored_app) = [(''Deleted preset: Cozy Reading'', ''success'')]"
  by (simp add: stored_app_def deletePreset_def loadPresets_def getPresets_def showToast_def
        empty_backend_def store_before_def store_after_def mine_preset_def
        getFallbackPresets_def initial_app_def)

text \<open>
  C2, amended.  The preset list is the three built-in presets, in their order, when there is
  no backend or \<open>list_presets\<close> rejects; when the backend lists its presets, the list is
  the listed presets that load, and nothing else.  \<open>deletePreset\<close> does nothing without a
  backend; with one it passes every name on, and the backend and the cached list afterwards
  are what the backend made of the request.  Only the panel keeps the built-in presets
  from deletion: their items get no delete button.
\<close>

theorem presets_listing_and_deletion:
  "(\<not> isTauri w \<or> list_presets (backend w) = None \<longrightarrow>
       presets (loadPresets w) = getFallbackPresets
       \<and> map preset_name (renderPresetList (getPresets (loadPresets w))) = BUILTIN_NAMES)
   \<and> (isTauri w \<and> list_presets (backend w) = Some names \<longrightarrow>
       presets (loadPresets w) = List.map_filter (load_preset (backend w)) names)
   \<and> (\<not> isTauri w \<longrightarrow> deletePreset nm w = w)
   \<and> (isTauri w \<and> delete_preset (backend w) nm = Some b \<longrightarrow>
       backend (deletePreset nm w) = b
       \<and> presets (deletePreset nm w) = presets (loadPresets (w\<lparr>backend := b\<rparr>)))
   \<and> (isTauri w \<and> delete_preset (backend w) nm = None \<longrightarrow>
       backend (deletePreset nm w) = backend w \<and> presets (deletePreset nm w) = presets w)
   \<and> (\<forall>p \<in> set getFallbackPresets. \<not> has_delete_button p)"
proof -
  have "\<forall>p \<in> set getFallbackPresets. \<not> has_delete_button p"
    by (simp add: getFallbackPresets_def has_delete_button_def BUILTIN_NAMES_def)
  then show ?thesis
    by (auto simp add: loadPresets_def deletePreset_def getPresets_def showToast_def
          fallback_listing split: option.splits)
qed

theorem presets_listing_and_deletion_witness:
  "isTauri (sample_app False no_backend) = False \<and>
   map preset_name (presets (loadPresets (sample_app False no_backend)))
     = [''Cozy Reading'', ''Focus Mode'', ''Night Reading''] \<and>
   deletePreset ''Cozy Reading'' (loadPresets (sample_app False no_backend))
     = loadPresets (sample_app False no_backend) \<and>
   isTauri stored_app \<and>
   list_presets (backend stored_app) = Some [''Cozy Reading'', ''Mine''] \<and>
   map preset_name (presets (loadPresets stored_app)) = [''Cozy Reading'', ''Mine''] \<and>
   delete_preset (backend stored_app) ''Cozy Reading'' = Some store_after \<and>
   backend (deletePreset ''Cozy Reading'' stored_app) = store_after \<and>
   delete_preset (backend stored_app) ''Mine'' = None \<and>
   backend (deletePreset ''Mine'' stored_app) = backend stored_app \<and>
   list_all (\<lambda>p. \<not> has_delete_button p) getFallbackPresets"
proof -
  have a: "isTauri (sample_app False no_backend) = False"
    and b: "isTauri (loadPresets (sample_app False no_backend)) = False"
    and c: "isTauri stored_app"
    and d: "list_presets (backend stored_app) = Some [''Cozy Reading'', ''Mine'']"
    and e: "delete_preset (backend stored_app) ''Cozy Reading'' = Some store_after"
    and f: "delete_preset (backend stored_app) ''Mine'' = None"
    by (simp_all add: stored_app_def store_before_def initial_app_def loadPresets_def)
  have g: "List.map_filter (load_preset (backend stored_app)) [''Cozy Reading'', ''Mine'']
             = [hd getFallbackPresets, mine_preset]"
    by (simp add: stored_app_def store_before_def initial_app_def loadPresets_def)
  have h: "map preset_name [hd getFallbackPresets, mine_preset] = [''Cozy Reading'', ''Mine'']"
    by (simp add: getFallbackPresets_def mine_preset_def)
  show ?thesis
    using presets_listing_and_deletion [of "sample_app False no_backend" "[]" "''Cozy Reading''" no_backend]
          presets_listing_and_deletion [of "loadPresets (sample_app False no_backend)" "[]" "''Cozy Reading''" no_backend]
          presets_listing_and_deletion [of stored_app "[''Cozy Reading'', ''Mine'']" "''Cozy Reading''" store_after]
          presets_listing_and_deletion [of stored_app "[''Cozy Reading'', ''Mine'']" "''Mine''" store_after]
          a b c d e f g h
    by (simp add: fallback_names BUILTIN_NAMES_def list_all_iff)
qed


section \<open>Properties of the startup\<close>

lemma setScrollbarColors_Val:
  obtains rd' where "setScrollbarColors track (Val x) rd = Normal rd'"
  using setScrollbarColors_completion [of track "Val x" rd] by (simp add: pick_def)

lemma apply_prefs_directly_result:
  obtains rd' where
    "apply_prefs_directly w =
       Normal (w\<lparr>reader := rd',
                 bgManager := setMuted (nullish_bool (p_bgAudioMuted (currentPrefs w)) True)
                    (do_if (truthy_str (p_bgMediaPath (currentPrefs w)))
                       (setMedia (toLowerCase w) (isTauri w) (p_bgMediaPath (currentPrefs w)))
                       (bgManager w))\<rparr>)"
    and "appearance rd' = direct_appearance (currentPrefs w)"
    and "book rd' = book (reader w)" and "rendition rd' = rendition (reader w)"
proof -
  let ?cp = "currentPrefs w"
  define rd8 where "rd8 =
     setBlur (Num (nullish_real (p_glassBlur ?cp) 12))
      (setGlassmorphism (Val (truthy_bool (p_glassmorphism ?cp)))
        (setOpacity (Num (nullish_real (p_containerOpacity ?cp) 95 / 100))
          (setBackgroundColor (or_str (p_containerColor ?cp) ''#FFFFFF'')
            (setTextColor (or_str (p_textColor ?cp) ''#1a1a1a'')
              (setFlow (or_str (p_readingMode ?cp) ''paginated'')
                (setFontSize (to_number (p_fontSize ?cp))
                  (setFontFamily (p_fontFamily ?cp) (reader w))))))))"
  obtain rd' where sc:
    "setScrollbarColors (Val (or_str (p_scrollbarTrack ?cp) ''#1a1a1a''))
       (Val (or_str (p_scrollbarThumb ?cp) ''#4a9eff'')) rd8 = Normal rd'"
    by (rule setScrollbarColors_Val)
  have rd': "rd' = state_of (setScrollbarColors (Val (or_str (p_scrollbarTrack ?cp) ''#1a1a1a''))
       (Val (or_str (p_scrollbarThumb ?cp) ''#4a9eff'')) rd8)"
    by (simp add: sc)
  have 1: "apply_prefs_directly w =
       Normal (w\<lparr>reader := rd',
                 bgManager := setMuted (nullish_bool (p_bgAudioMuted ?cp) True)
                    (do_if (truthy_str (p_bgMediaPath ?cp))
                       (setMedia (toLowerCase w) (isTauri w) (p_bgMediaPath ?cp)) (bgManager w))\<rparr>)"
    unfolding apply_prefs_directly_def Let_def rd8_def [symmetric] sc
    by (simp add: do_if_def)
  have 2: "appearance rd' = direct_appearance ?cp"
    unfolding rd' appearance_eq direct_appearance_def
    by (simp add: rd8_def pick_def)
  have 3: "book rd' = book (reader w)" "rendition rd' = rendition (reader w)"
    unfolding rd' by (simp_all add: rd8_def)
  from 1 2 3 show ?thesis by (rule that)
qed

lemma restore_music_frame [simp]:
  "toLowerCase (restore_music w) = toLowerCase w"
  "round100 (restore_music w) = round100 w"
  "isTauri (restore_music w) = isTauri w"
  "backend (restore_music w) = backend w"
  "reader (restore_music w) = reader w"
  "overlayManager (restore_music w) = overlayManager w"
  "currentPreset (restore_music w) = currentPreset w"
  "presets (restore_music w) = presets w"
  "currentPrefs (restore_music w) = currentPrefs w"
  "toasts (restore_music w) = toasts w"
  "getCurrentMedia (bgManager (restore_music w)) = getCurrentMedia (bgManager w)"
  "muted (bgManager (restore_music w)) = muted (bgManager w)"
  by (cases "p_bgMusicPath (currentPrefs w)";
      simp add: restore_music_def Let_def getCurrentMedia_def setMusicMuted_def
        setMusicVolume_def clearMusic_def)+

lemma truthy_str_defined [simp]: "truthy_str x \<Longrightarrow> x \<noteq> Undefined"
  by (cases x) simp_all

lemma truthy_real_defined [simp]: "truthy_real x \<Longrightarrow> x \<noteq> Undefined"
  by (cases x) simp_all

lemma round_percent_defined [simp]: "round_percent rp x \<noteq> Undefined"
  by (cases x) simp_all

lemma synced_after:
  assumes "preset_reader p = Some r"
  shows "synced rp r (assign_prefs cp (extractPrefsFromPreset rp p)) (state_of (apply_reader r rd))"
proof -
  have "\<exists>m. extractPrefsFromPreset rp p = (extract_reader rp r)\<lparr>p_bgMediaPath := m\<rparr>"
    using assms by (auto simp add: extractPrefsFromPreset_def Let_def split: option.splits)
  then obtain m where q: "extractPrefsFromPreset rp p = (extract_reader rp r)\<lparr>p_bgMediaPath := m\<rparr>"
    by blast
  show ?thesis
    unfolding synced_def q
    by (simp add: assign_prefs_def extract_reader_def empty_prefs_def pick_def keep_if_def
          apply_reader_fields apply_reader_fontSize or_str_if)
qed

text \<open>\<open>Object.assign\<close> of the extracted values, key by key.\<close>

lemma assign_extract:
  "assign_prefs cp (extractPrefsFromPreset rp p) = synced_prefs rp p cp"
  by (rule prefs.equality)
     (simp_all add: assign_prefs_def extractPrefsFromPreset_def synced_prefs_def
        extract_reader_def empty_prefs_def pick_def keep_if_def Let_def
        split: option.splits js.splits)

lemma synced_prefs_after:
  "preset_reader p = Some r \<Longrightarrow> synced rp r (synced_prefs rp p cp) (rd_after p w)"
  using synced_after [of p r rp cp "reader w"]
  by (simp add: assign_extract rd_after_def)

lemma hasLastSession_find:
  "hasLastSession w \<Longrightarrow> \<exists>p. find (\<lambda>p. preset_name p = ''_last_session'') (presets w) = Some p"
  by (cases "find (\<lambda>p. preset_name p = ''_last_session'') (presets w)")
     (auto simp add: hasLastSession_def list_ex_iff find_None_iff)

lemma applyPreset_cached:
  "find (\<lambda>p. preset_name p = nm) (presets w) = Some p \<Longrightarrow> applyPreset nm w = apply_found p w"
  by (simp add: applyPreset_def)

lemma applyPreset_cached_result:
  "find (\<lambda>p. preset_name p = nm) (presets w) = Some p \<Longrightarrow>
     fst (applyPreset nm w) = (\<not> background_throws p w \<and> \<not> reader_throws p (reader w))"
  by (simp add: applyPreset_cached apply_found_eq)

lemma restore_session_eq:
  assumes "find (\<lambda>p. preset_name p = ''_last_session'') (presets w) = Some p"
  shows "restore_session w =
           Normal (if background_throws p w then snd (apply_failed w)
                   else if reader_throws p (reader w)
                   then snd (apply_failed (w\<lparr>bgManager := bg_after p w,
                                              overlayManager := ov_after p w,
                                              reader := rd_after p w\<rparr>))
                   else w\<lparr>bgManager := bg_after p w, overlayManager := ov_after p w,
                          reader := rd_after p w, currentPreset := Some p,
                          currentPrefs := synced_prefs (round100 w) p (currentPrefs w)\<rparr>)"
  unfolding restore_session_def applyPreset_cached [OF assms] apply_found_eq
  by (simp add: assign_extract apply_failed_def showToast_def)

lemma load_prefs_frame [simp]:
  "toLowerCase (load_prefs w) = toLowerCase w"
  "round100 (load_prefs w) = round100 w"
  "isTauri (load_prefs w) = isTauri w"
  "backend (load_prefs w) = backend w"
  "reader (load_prefs w) = reader w"
  "bgManager (load_prefs w) = bgManager w"
  "overlayManager (load_prefs w) = overlayManager w"
  "currentPreset (load_prefs w) = currentPreset w"
  "presets (load_prefs w) = presets w"
  "toasts (load_prefs w) = toasts w"
  by (simp_all add: load_prefs_def split: option.splits)

lemma init_session_state:
  assumes "w2 = loadPresets (load_prefs (initial_app lc rp t b))"
    and "w' = state_of (init (initial_app lc rp t b))"
    and "find (\<lambda>p. preset_name p = ''_last_session'') (presets w2) = Some p"
    and h: "hasLastSession w2"
  shows "init (initial_app lc rp t b) = Normal w'"
    and "w' = restore_music
                (if background_throws p w2 then snd (apply_failed w2)
                 else if reader_throws p (reader w2)
                 then snd (apply_failed (w2\<lparr>bgManager := bg_after p w2,
                                             overlayManager := ov_after p w2,
                                             reader := rd_after p w2\<rparr>))
                 else w2\<lparr>bgManager := bg_after p w2, overlayManager := ov_after p w2,
                         reader := rd_after p w2, currentPreset := Some p,
                         currentPrefs := synced_prefs rp p (currentPrefs w2)\<rparr>)"
proof -
  have r: "round100 w2 = rp"
    by (simp add: assms(1))
  have i: "init (initial_app lc rp t b) =
             (case restore_session w2 of Throws e w3 \<Rightarrow> Throws e w3
              | Normal w3 \<Rightarrow> Normal (restore_music w3))"
    using h unfolding init_def Let_def assms(1) [symmetric] by simp
  show "w' = restore_music
                (if background_throws p w2 then snd (apply_failed w2)
                 else if reader_throws p (reader w2)
                 then snd (apply_failed (w2\<lparr>bgManager := bg_after p w2,
                                             overlayManager := ov_after p w2,
                                             reader := rd_after p w2\<rparr>))
                 else w2\<lparr>bgManager := bg_after p w2, overlayManager := ov_after p w2,
                         reader := rd_after p w2, currentPreset := Some p,
                         currentPrefs := synced_prefs rp p (currentPrefs w2)\<rparr>)"
    unfolding assms(2) i restore_session_eq [OF assms(3)] r by simp
  then show "init (initial_app lc rp t b) = Normal w'"
    unfolding i restore_session_eq [OF assms(3)] r by simp
qed

lemma init_with_session:
  assumes "w2 = loadPresets (load_prefs (initial_app lc rp t b))"
    and "w' = state_of (init (initial_app lc rp t b))"
    and "hasLastSession w2"
  shows
    "\<exists>p. find (\<lambda>p. preset_name p = ''_last_session'') (presets w2) = Some p
        \<and> init (initial_app lc rp t b) = Normal w'
        \<and> fst (applyPreset ''_last_session'' w2)
            = (\<not> background_throws p w2 \<and> \<not> reader_throws p (reader w2))
        \<and> (\<not> background_throws p w2 \<longrightarrow>
             overlayManager w' = ov_after p w2
             \<and> getCurrentMedia (bgManager w') = getCurrentMedia (bg_after p w2)
             \<and> (preset_reader p = None \<longrightarrow> reader w' = reader w2)
             \<and> (\<forall>r. preset_reader p = Some r \<longrightarrow>
                    appearance (reader w') = applied_appearance r (reader w2)))
        \<and> (\<not> background_throws p w2 \<and> \<not> reader_throws p (reader w2) \<longrightarrow>
             currentPreset w' = Some p
             \<and> currentPrefs w' = synced_prefs rp p (currentPrefs w2)
             \<and> (\<forall>r. preset_reader p = Some r \<longrightarrow> synced rp r (currentPrefs w') (reader w')))
        \<and> (background_throws p w2 \<or> reader_throws p (reader w2) \<longrightarrow>
             currentPreset w' = None \<and> currentPrefs w' = currentPrefs w2)
        \<and> (background_throws p w2 \<longrightarrow>
             reader w' = reader w2
             \<and> overlayManager w' = overlayManager w2
             \<and> getCurrentMedia (bgManager w') = getCurrentMedia (bgManager w2))"
proof -
  from assms(3) obtain p where p: "find (\<lambda>p. preset_name p = ''_last_session'') (presets w2) = Some p"
    using hasLastSession_find by blast
  note s = init_session_state [OF assms(1,2) p assms(3)]
  have cp0: "currentPreset w2 = None"
    by (simp add: assms(1))
  have a: "fst (applyPreset ''_last_session'' w2)
            = (\<not> background_throws p w2 \<and> \<not> reader_throws p (reader w2))"
    by (rule applyPreset_cached_result [OF p])
  have b: "\<not> background_throws p w2 \<Longrightarrow>
             overlayManager w' = ov_after p w2
             \<and> getCurrentMedia (bgManager w') = getCurrentMedia (bg_after p w2)
             \<and> reader w' = rd_after p w2"
    by (subst (1 2 3) s(2)) simp
  have c: "\<not> background_throws p w2 \<and> \<not> reader_throws p (reader w2) \<Longrightarrow>
             currentPreset w' = Some p
             \<and> currentPrefs w' = synced_prefs rp p (currentPrefs w2)"
    by (subst (1 2) s(2)) simp
  have d: "background_throws p w2 \<or> reader_throws p (reader w2) \<Longrightarrow>
             currentPreset w' = None \<and> currentPrefs w' = currentPrefs w2"
    by (subst (1 2) s(2)) (auto simp add: cp0)
  have e: "background_throws p w2 \<Longrightarrow>
             reader w' = reader w2
             \<and> overlayManager w' = overlayManager w2
             \<and> getCurrentMedia (bgManager w') = getCurrentMedia (bgManager w2)"
    by (subst (1 2 3) s(2)) simp
  have f: "\<not> background_throws p w2 \<and> \<not> reader_throws p (reader w2) \<Longrightarrow>
             \<forall>r. preset_reader p = Some r \<longrightarrow> synced rp r (currentPrefs w') (reader w')"
    using b c synced_prefs_after [of p _ rp "currentPrefs w2" w2] by simp
  have g: "\<not> background_throws p w2 \<Longrightarrow>
             (preset_reader p = None \<longrightarrow> reader w' = reader w2)
             \<and> (\<forall>r. preset_reader p = Some r \<longrightarrow>
                    appearance (reader w') = applied_appearance r (reader w2))"
    using b by (simp add: rd_after_none rd_after_appearance)
  have main: "find (\<lambda>p. preset_name p = ''_last_session'') (presets w2) = Some p
        \<and> init (initial_app lc rp t b) = Normal w'
        \<and> fst (applyPreset ''_last_session'' w2)
            = (\<not> background_throws p w2 \<and> \<not> reader_throws p (reader w2))
        \<and> (\<not> background_throws p w2 \<longrightarrow>
             overlayManager w' = ov_after p w2
             \<and> getCurrentMedia (bgManager w') = getCurrentMedia (bg_after p w2)
             \<and> (preset_reader p = None \<longrightarrow> reader w' = reader w2)
             \<and> (\<forall>r. preset_reader p = Some r \<longrightarrow>
                    appearance (reader w') = applied_appearance r (reader w2)))
        \<and> (\<not> background_throws p w2 \<and> \<not> reader_throws p (reader w2) \<longrightarrow>
             currentPreset w' = Some p
             \<and> currentPrefs w' = synced_prefs rp p (currentPrefs w2)
             \<and> (\<forall>r. preset_reader p = Some r \<longrightarrow> synced rp r (currentPrefs w') (reader w')))
        \<and> (background_throws p w2 \<or> reader_throws p (reader w2) \<longrightarrow>
             currentPreset w' = None \<and> currentPrefs w' = currentPrefs w2)
        \<and> (background_throws p w2 \<longrightarrow>
             reader w' = reader w2
             \<and> overlayManager w' = overlayManager w2
             \<and> getCurrentMedia (bgManager w') = getCurrentMedia (bgManager w2))"
    using p s(1) a b c d e f g by simp
  show ?thesis
    by (rule exI [where x = p]) (rule main)
qed

lemma init_first_run:
  assumes "w2 = loadPresets (load_prefs (initial_app lc rp t b))"
    and "w' = state_of (init (initial_app lc rp t b))"
    and "\<not> hasLastSession w2"
  shows
    "init (initial_app lc rp t b) = Normal w'
        \<and> presets w' = presets w2
        \<and> isTauri w' = t
        \<and> toLowerCase w' = lc
        \<and> round100 w' = rp
        \<and> currentPreset w' = None
        \<and> currentPrefs w' = currentPrefs w2
        \<and> appearance (reader w') = direct_appearance (currentPrefs w2)
        \<and> overlayManager w' = new_OverlayManager
        \<and> muted (bgManager w') = nullish_bool (p_bgAudioMuted (currentPrefs w2)) True
        \<and> getCurrentMedia (bgManager w') =
            getCurrentMedia
              (do_if (truthy_str (p_bgMediaPath (currentPrefs w2)))
                 (setMedia lc t (p_bgMediaPath (currentPrefs w2)))
                 (new_BackgroundManager page_image page_video))"
proof -
  obtain rd' where r:
    "apply_prefs_directly w2 =
       Normal (w2\<lparr>reader := rd',
                  bgManager := setMuted (nullish_bool (p_bgAudioMuted (currentPrefs w2)) True)
                    (do_if (truthy_str (p_bgMediaPath (currentPrefs w2)))
                       (setMedia (toLowerCase w2) (isTauri w2) (p_bgMediaPath (currentPrefs w2)))
                       (bgManager w2))\<rparr>)"
    and ap: "appearance rd' = direct_appearance (currentPrefs w2)"
    by (rule apply_prefs_directly_result)
  have i: "init (initial_app lc rp t b) = Normal (restore_music (state_of (apply_prefs_directly w2)))"
    using assms(3) unfolding init_def Let_def assms(1) [symmetric] by (simp add: r)
  show ?thesis
    using ap
    by (simp add: i assms(2) r)
       (simp add: assms(1) setMuted_def getCurrentMedia_def)
qed

lemma loaded_prefs:
  "currentPrefs (loadPresets (load_prefs (initial_app lc rp t b))) =
     (if t then (case get_preferences b of Some cp \<Rightarrow> cp | None \<Rightarrow> default_prefs)
      else default_prefs)"
  by (simp add: load_prefs_def split: option.splits)

lemma broken_session_app_facts:
  "hasLastSession broken_session_app"
  "find (\<lambda>p. preset_name p = ''_last_session'') (presets broken_session_app) = Some broken_session"
  "currentPrefs broken_session_app = default_prefs"
  "reader broken_session_app = new_EpubReader page_container"
  "overlayManager broken_session_app = new_OverlayManager"
  "background_throws broken_session broken_session_app = False"
  "reader_throws broken_session (reader broken_session_app)"
  "preset_reader broken_session =
     Some \<lparr>r_opacity = Val 0.85, r_backgroundColor = Val ''#2d2d2d'',
           r_textColor = Val ''#e0e0e0'', r_fontFamily = Val ''serif'', r_fontSize = Val 20,
           r_readingMode = Val ''paginated'', r_glassmorphism = Val False, r_glassBlur = Val 8,
           r_scrollbarTrack = Val ''#1a1a1a'', r_scrollbarThumb = Null\<rparr>"
  by (simp_all add: broken_session_app_def loadPresets_def load_prefs_def
        broken_session_backend_def hasLastSession_def broken_session_def broken_preset_def
        background_throws_def reader_throws_def pick_def)

lemma failed_start_app_facts:
  "currentPreset failed_start_app = None"
  "currentPrefs failed_start_app = default_prefs"
  "appearance (reader failed_start_app)
     = (Num 0.85, ''#2d2d2d'', ''#e0e0e0'', Val ''serif'', Num 20, ''paginated'', Val False, Num 8,
        Val ''#1a1a1a'', Null)"
  "getCurrentTint (overlayManager failed_start_app) = (Val ''#1a1a2e'', Num 0.4)"
proof -
  have "currentPreset failed_start_app = None
        \<and> currentPrefs failed_start_app = currentPrefs broken_session_app
        \<and> overlayManager failed_start_app = ov_after broken_session broken_session_app
        \<and> appearance (reader failed_start_app)
            = applied_appearance
                \<lparr>r_opacity = Val 0.85, r_backgroundColor = Val ''#2d2d2d'',
                 r_textColor = Val ''#e0e0e0'', r_fontFamily = Val ''serif'',
                 r_fontSize = Val 20, r_readingMode = Val ''paginated'',
                 r_glassmorphism = Val False, r_glassBlur = Val 8,
                 r_scrollbarTrack = Val ''#1a1a1a'', r_scrollbarThumb = Null\<rparr>
                (reader broken_session_app)"
    using init_with_session [OF broken_session_app_def failed_start_app_def]
          broken_session_app_facts
    by auto
  then show "currentPreset failed_start_app = None"
    "currentPrefs failed_start_app = default_prefs"
    "appearance (reader failed_start_app)
       = (Num 0.85, ''#2d2d2d'', ''#e0e0e0'', Val ''serif'', Num 20, ''paginated'', Val False,
          Num 8, Val ''#1a1a1a'', Null)"
    "getCurrentTint (overlayManager failed_start_app) = (Val ''#1a1a2e'', Num 0.4)"
    by (simp_all add: broken_session_app_facts applied_appearance_def new_EpubReader_def
          ov_after_def broken_session_def broken_preset_def getCurrentTint_def Let_def
          new_OverlayManager_def)
qed

text \<open>
  C4, as stated, fails.  On the backend below the loaded list has a \<open>_last_session\<close>
  preset, whose scrollbar thumb is \<open>null\<close>.  \<open>init\<close> completes; the reader has taken the
  snapshot's values up to the throwing setter (text colour \<open>#e0e0e0\<close>, font size 20, opacity
  0.85), but the preferences are not synchronised from it: they still hold the stored text
  colour \<open>#1a1a1a\<close>, font size 18 and opacity 95, and no preset is current.
\<close>

theorem session_present_not_synchronized:
  "hasLastSession broken_session_app \<and>
   find (\<lambda>p. preset_name p = ''_last_session'') (presets broken_session_app)
     = Some broken_session \<and>
   init (sample_app True broken_session_backend) = Normal failed_start_app \<and>
   currentPreset failed_start_app = None \<and>
   textColor (reader failed_start_app) = ''#e0e0e0'' \<and>
   p_textColor (currentPrefs failed_start_app) = Val ''#1a1a1a'' \<and>
   fontSize (reader failed_start_app) = Num 20 \<and>
   p_fontSize (currentPrefs failed_start_app) = Val 18 \<and>
   opacity (reader failed_start_app) = Num 0.85 \<and>
   p_containerOpacity (currentPrefs failed_start_app) = Val 95"
proof -
  have i: "init (sample_app True broken_session_backend) = Normal failed_start_app"
    using init_with_session [OF broken_session_app_def failed_start_app_def]
          broken_session_app_facts(1)
    by auto
  show ?thesis
    using i failed_start_app_facts(3)
    by (simp add: broken_session_app_facts failed_start_app_facts(1,2) appearance_eq
          default_prefs_def)
qed

text \<open>
  C4, amended.  \<open>init\<close> runs on the freshly constructed application, whatever the
  platform's \<open>toLowerCase\<close> and rounding are, and completes.  Let \<open>w2\<close> be the application
  once preferences and presets are loaded; its preferences are the ones the backend
  returns, the built-in ones without a backend or when \<open>get_preferences\<close> rejects.  If the
  loaded list has a \<open>_last_session\<close> preset, that preset is what \<open>applyPreset\<close> is run on,
  and the preferences are not applied directly.  Its application succeeds unless \<open>get_app_dir\<close> rejects or \<open>setScrollbarColors\<close>
  throws.  When it succeeds, the overlay and the background media are as the preset sets
  them, the reader's appearance is the one the preset's reader section gives it, the preset
  is the current one, the preferences are the loaded ones with every key the preset sets
  overwritten by the preset's value, and on each of those keys preferences and reader agree
  with the preset, whatever the stored preferences said.  When it fails, no preset is
  current and the preferences stay as loaded; after a rejected \<open>get_app_dir\<close> the state
  holders are untouched, after a throwing \<open>setScrollbarColors\<close> they keep what was written
  before.  If there is no such preset, the preferences are applied directly: the reader's
  appearance, the background media and its mute flag are the ones of the preferences,
  which are left as loaded.
\<close>

theorem init_session_or_preferences:
  assumes "w2 = loadPresets (load_prefs (initial_app lc rp t b))"
    and "w' = state_of (init (initial_app lc rp t b))"
  shows
    "currentPrefs w2 =
       (if t then (case get_preferences b of Some cp \<Rightarrow> cp | None \<Rightarrow> default_prefs)
        else default_prefs)
     \<and> (hasLastSession w2 \<longrightarrow>
        (\<exists>p. find (\<lambda>p. preset_name p = ''_last_session'') (presets w2) = Some p
           \<and> init (initial_app lc rp t b) = Normal w'
           \<and> fst (applyPreset ''_last_session'' w2)
               = (\<not> background_throws p w2 \<and> \<not> reader_throws p (reader w2))
           \<and> (\<not> background_throws p w2 \<longrightarrow>
                overlayManager w' = ov_after p w2
                \<and> getCurrentMedia (bgManager w') = getCurrentMedia (bg_after p w2)
                \<and> (preset_reader p = None \<longrightarrow> reader w' = reader w2)
                \<and> (\<forall>r. preset_reader p = Some r \<longrightarrow>
                       appearance (reader w') = applied_appearance r (reader w2)))
           \<and> (\<not> background_throws p w2 \<and> \<not> reader_throws p (reader w2) \<longrightarrow>
                currentPreset w' = Some p
                \<and> currentPrefs w' = synced_prefs rp p (currentPrefs w2)
                \<and> (\<forall>r. preset_reader p = Some r \<longrightarrow>
                       synced rp r (currentPrefs w') (reader w')))
           \<and> (background_throws p w2 \<or> reader_throws p (reader w2) \<longrightarrow>
                currentPreset w' = None \<and> currentPrefs w' = currentPrefs w2)
           \<and> (background_throws p w2 \<longrightarrow>
                reader w' = reader w2
                \<and> overlayManager w' = overlayManager w2
                \<and> getCurrentMedia (bgManager w') = getCurrentMedia (bgManager w2))))
     \<and> (\<not> hasLastSession w2 \<longrightarrow>
        init (initial_app lc rp t b) = Normal w'
        \<and> currentPreset w' = None
        \<and> currentPrefs w' = currentPrefs w2
        \<and> appearance (reader w') = direct_appearance (currentPrefs w2)
        \<and> overlayManager w' = new_OverlayManager
        \<and> muted (bgManager w') = nullish_bool (p_bgAudioMuted (currentPrefs w2)) True
        \<and> getCurrentMedia (bgManager w') =
            getCurrentMedia
              (do_if (truthy_str (p_bgMediaPath (currentPrefs w2)))
                 (setMedia lc t (p_bgMediaPath (currentPrefs w2)))
                 (new_BackgroundManager page_image page_video)))"
proof -
  have l: "currentPrefs w2 =
       (if t then (case get_preferences b of Some cp \<Rightarrow> cp | None \<Rightarrow> default_prefs)
        else default_prefs)"
    unfolding assms(1) by (rule loaded_prefs)
  show ?thesis
    using init_with_session [OF assms] init_first_run [OF assms] l
    by blast
qed

lemma session_app_facts:
  "hasLastSession session_app"
  "find (\<lambda>p. preset_name p = ''_last_session'') (presets session_app) = Some session_preset"
  "currentPrefs session_app = default_prefs"
  "reader session_app = new_EpubReader page_container"
  "background_throws session_preset session_app = False"
  "reader_throws session_preset (reader session_app) = False"
  "preset_reader session_preset =
     Some \<lparr>r_opacity = Val 0.9, r_backgroundColor = Val ''#FFF8DC'',
           r_textColor = Val ''#3e2723'', r_fontFamily = Val ''monospace'',
           r_fontSize = Val 22, r_readingMode = Val ''scrolled'',
           r_glassmorphism = Val True, r_glassBlur = Val 16,
           r_scrollbarTrack = Val ''#222222'', r_scrollbarThumb = Val ''#8B4513''\<rparr>"
  by (simp_all add: session_app_def loadPresets_def load_prefs_def session_backend_def
        hasLastSession_def session_preset_def background_throws_def reader_throws_def pick_def)

lemma browser_app_facts:
  "hasLastSession browser_app = False"
  "currentPrefs browser_app = default_prefs"
  by (simp_all add: browser_app_def loadPresets_def load_prefs_def hasLastSession_def
        getFallbackPresets_def)

lemma image_session_app_facts:
  "hasLastSession image_session_app"
  "find (\<lambda>p. preset_name p = ''_last_session'') (presets image_session_app) = Some image_session"
  "background_throws image_session image_session_app"
  "reader image_session_app = new_EpubReader page_container"
  "overlayManager image_session_app = new_OverlayManager"
  "currentPrefs image_session_app = default_prefs"
  by (simp_all add: image_session_app_def loadPresets_def load_prefs_def
        image_session_backend_def hasLastSession_def image_session_def image_preset_def
        background_throws_def)

theorem init_session_or_preferences_witness:
  "hasLastSession session_app \<and>
   background_throws session_preset session_app = False \<and>
   reader_throws session_preset (reader session_app) = False \<and>
   p_fontFamily (currentPrefs session_app) = Val ''serif'' \<and>
   p_containerOpacity (currentPrefs session_app) = Val 95 \<and>
   currentPreset (state_of (init (sample_app True session_backend))) = Some session_preset \<and>
   appearance (reader (state_of (init (sample_app True session_backend))))
     = (Num 0.9, ''#FFF8DC'', ''#3e2723'', Val ''monospace'', Num 22, ''scrolled'', Val True,
        Num 16, Val ''#222222'', Val ''#8B4513'') \<and>
   p_fontFamily (currentPrefs (state_of (init (sample_app True session_backend))))
     = Val ''monospace'' \<and>
   p_containerOpacity (currentPrefs (state_of (init (sample_app True session_backend))))
     = Val 90 \<and>
   hasLastSession broken_session_app \<and>
   reader_throws broken_session (reader broken_session_app) \<and>
   currentPreset (state_of (init (sample_app True broken_session_backend))) = None \<and>
   currentPrefs (state_of (init (sample_app True broken_session_backend))) = default_prefs \<and>
   hasLastSession image_session_app \<and>
   background_throws image_session image_session_app \<and>
   reader (state_of (init (sample_app True image_session_backend)))
     = new_EpubReader page_container \<and>
   overlayManager (state_of (init (sample_app True image_session_backend)))
     = new_OverlayManager \<and>
   currentPrefs (state_of (init (sample_app True image_session_backend))) = default_prefs \<and>
   hasLastSession browser_app = False \<and>
   appearance (reader (state_of (init (sample_app False no_backend))))
     = direct_appearance default_prefs \<and>
   currentPrefs (state_of (init (sample_app False no_backend))) = default_prefs"
proof -
  let ?w = "state_of (init (sample_app True session_backend))"
  let ?r = "\<lparr>r_opacity = Val 0.9, r_backgroundColor = Val ''#FFF8DC'',
             r_textColor = Val ''#3e2723'', r_fontFamily = Val ''monospace'',
             r_fontSize = Val 22, r_readingMode = Val ''scrolled'',
             r_glassmorphism = Val True, r_glassBlur = Val 16,
             r_scrollbarTrack = Val ''#222222'', r_scrollbarThumb = Val ''#8B4513''\<rparr>"
  have "currentPreset ?w = Some session_preset
        \<and> appearance (reader ?w) = applied_appearance ?r (reader session_app)
        \<and> synced exact_round100 ?r (currentPrefs ?w) (reader ?w)"
    using init_session_or_preferences [OF session_app_def refl] session_app_facts
    by auto
  then have s: "currentPreset ?w = Some session_preset"
      "appearance (reader ?w)
         = (Num 0.9, ''#FFF8DC'', ''#3e2723'', Val ''monospace'', Num 22, ''scrolled'', Val True,
            Num 16, Val ''#222222'', Val ''#8B4513'')"
      "p_fontFamily (currentPrefs ?w) = Val ''monospace''"
      "p_containerOpacity (currentPrefs ?w) = Val 90"
    by (simp_all add: synced_def exact_round100_def math_round_def applied_appearance_def
          session_app_facts new_EpubReader_def)
  have b: "appearance (reader (state_of (init (sample_app False no_backend))))
             = direct_appearance default_prefs"
      "currentPrefs (state_of (init (sample_app False no_backend))) = default_prefs"
    using init_session_or_preferences [OF browser_app_def refl] browser_app_facts
    by simp_all
  have f: "currentPreset (state_of (init (sample_app True broken_session_backend))) = None"
      "currentPrefs (state_of (init (sample_app True broken_session_backend))) = default_prefs"
    using init_session_or_preferences [OF broken_session_app_def refl]
          broken_session_app_facts
    by auto
  have g: "reader (state_of (init (sample_app True image_session_backend)))
             = new_EpubReader page_container"
      "overlayManager (state_of (init (sample_app True image_session_backend)))
         = new_OverlayManager"
      "currentPrefs (state_of (init (sample_app True image_session_backend))) = default_prefs"
    using init_session_or_preferences [OF image_session_app_def refl]
          image_session_app_facts
    by auto
  have d: "p_fontFamily (currentPrefs session_app) = Val ''serif''"
      "p_containerOpacity (currentPrefs session_app) = Val 95"
    by (simp_all add: session_app_facts(3) default_prefs_def)
  show ?thesis
    by (intro conjI)
       (rule s b f g d session_app_facts(1,5,6) browser_app_facts(1)
          broken_session_app_facts(1,7) image_session_app_facts(1,3))+
qed


section \<open>Capture and apply\<close>

lemma build_fields:
  "preset_background (buildPresetFromCurrent nm cp w) =
     Some \<lparr>bg_type = Val (if truthy_str (currentMedia (bgManager w)) then ''media'' else ''none''),
           bg_path = (if truthy_str (currentMedia (bgManager w)) then currentMedia (bgManager w)
                      else Null)\<rparr>"
  "preset_overlay (buildPresetFromCurrent nm cp w) =
     Some \<lparr>ov_color = Val (or_str (currentColor (overlayManager w)) ''#000000''),
           ov_opacity = Val (or_zero (currentOpacity (overlayManager w)))\<rparr>"
  "preset_reader (buildPresetFromCurrent nm cp w) =
     Some \<lparr>r_opacity = Val (nullish_real (p_containerOpacity cp) 95 / 100),
           r_backgroundColor = Val (or_str (p_containerColor cp) ''#FFFFFF''),
           r_textColor = Val (or_str (p_textColor cp) ''#1a1a1a''),
           r_fontFamily = Val (or_str (p_fontFamily cp) ''serif''),
           r_fontSize = Val (or_real (p_fontSize cp) 18),
           r_readingMode = Val (or_str (p_readingMode cp) ''paginated''),
           r_glassmorphism = Val (truthy_bool (p_glassmorphism cp)),
           r_glassBlur = Val (nullish_real (p_glassBlur cp) 12),
           r_scrollbarTrack = Val (or_str (p_scrollbarTrack cp) ''#1a1a1a''),
           r_scrollbarThumb = Val (or_str (p_scrollbarThumb cp) ''#4a9eff'')\<rparr>"
  by (simp_all add: buildPresetFromCurrent_def Let_def getCurrentMedia_def)

lemma or_str_nonempty [simp]: "d \<noteq> [] \<Longrightarrow> or_str x d \<noteq> []"
  by (cases x) simp_all

lemma or_real_nonzero [simp]: "d \<noteq> 0 \<Longrightarrow> or_real x d \<noteq> 0"
  by (cases x) simp_all

lemma capture_never_throws:
  "\<not> background_throws (buildPresetFromCurrent nm cp w) w'"
  "\<not> reader_throws (buildPresetFromCurrent nm cp w) rd"
  by (simp_all add: background_throws_def reader_throws_def build_fields pick_def)

lemma capture_rd_after:
  "appearance (rd_after (buildPresetFromCurrent nm cp w) w') = prefs_appearance cp"
  unfolding appearance_eq prefs_appearance_def
  by (simp add: rd_after_def build_fields apply_reader_fields apply_reader_fontSize pick_def)

lemma capture_ov_after:
  "ov_after (buildPresetFromCurrent nm cp w) w' =
     setTint (Val (or_str (currentColor (overlayManager w)) ''#000000''))
       (Num (or_zero (currentOpacity (overlayManager w)))) (overlayManager w')"
  by (simp add: ov_after_def build_fields)

lemma capture_bg_after:
  "bg_after (buildPresetFromCurrent nm cp w) w' =
     (if truthy_str (currentMedia (bgManager w))
      then setMedia (toLowerCase w') (isTauri w') (currentMedia (bgManager w)) (bgManager w')
      else clearMedia (bgManager w'))"
  by (simp add: bg_after_def build_fields)

lemma capture_then_apply_eq:
  "capture_then_apply nm w =
     (True, w\<lparr>bgManager := bg_after (buildPresetFromCurrent nm (currentPrefs w) w) w,
              overlayManager := ov_after (buildPresetFromCurrent nm (currentPrefs w) w) w,
              reader := rd_after (buildPresetFromCurrent nm (currentPrefs w) w) w,
              currentPreset := Some (buildPresetFromCurrent nm (currentPrefs w) w)\<rparr>)"
  by (simp add: capture_then_apply_def apply_found_eq capture_never_throws)

lemma media_roundtrip:
  "media_consistent lc bg \<Longrightarrow>
     getCurrentMedia (if truthy_str (currentMedia bg) then setMedia lc t (currentMedia bg) bg
                      else clearMedia bg) = getCurrentMedia bg"
  by (cases "currentMedia bg")
     (auto simp add: media_consistent_def getCurrentMedia_def clearMedia_def hideAll_def Let_def
        split: option.splits media_type.splits)

lemma tint_roundtrip:
  "tint_in_range ov \<Longrightarrow>
     getCurrentTint (setTint (Val (or_str (currentColor ov) ''#000000''))
                       (Num (or_zero (currentOpacity ov))) ov)
       = (Val (or_str (currentColor ov) ''#000000''), currentOpacity ov)"
  by (cases "currentOpacity ov")
     (simp_all add: tint_in_range_def getCurrentTint_def Let_def)

lemma truthy_or_str: "truthy_str x \<Longrightarrow> Val (or_str x d) = x"
  by (cases x) simp_all

text \<open>The two invariants hold for the constructors and are kept by the setters.\<close>

lemma media_consistent_kept:
  "media_consistent lc (new_BackgroundManager img vid)"
  "media_consistent lc (clearMedia bg)"
  "media_consistent lc bg \<Longrightarrow> media_consistent lc (setMedia lc t path bg)"
  "media_consistent lc bg \<Longrightarrow> media_consistent lc (setMuted m bg)"
  by (cases path;
      auto simp add: media_consistent_def new_BackgroundManager_def clearMedia_def hideAll_def
        setMuted_def Let_def split: option.splits media_type.splits js.splits)+

lemma tint_in_range_kept:
  "tint_in_range new_OverlayManager"
  "tint_in_range (clearTint ov)"
  "tint_in_range (setTint color (Num x) ov)"
  by (cases color;
      simp add: tint_in_range_def new_OverlayManager_def clearTint_def Let_def)+

lemma direct_is_prefs_appearance:
  "truthy_str (p_fontFamily cp) \<Longrightarrow> truthy_real (p_fontSize cp) \<Longrightarrow>
     direct_appearance cp = prefs_appearance cp"
  by (cases "p_fontFamily cp"; cases "p_fontSize cp")
     (simp_all add: direct_appearance_def prefs_appearance_def)

lemma builtin_app_facts:
  "hasLastSession builtin_app = False"
  "currentPrefs builtin_app = default_prefs"
  "presets builtin_app = getFallbackPresets"
  by (simp_all add: builtin_app_def loadPresets_def load_prefs_def hasLastSession_def
        builtin_backend_def BUILTIN_NAMES_def getFallbackPresets_def List.map_filter_def)

lemma started_app_facts:
  "presets started_app = getFallbackPresets"
  "isTauri started_app = True"
  "toLowerCase started_app = ascii_lower"
  "round100 started_app = exact_round100"
  "currentPrefs started_app = default_prefs"
  "appearance (reader started_app) = direct_appearance default_prefs"
  "overlayManager started_app = new_OverlayManager"
  "getCurrentMedia (bgManager started_app) = (Null, None)"
  using init_first_run [OF builtin_app_def started_app_def] builtin_app_facts
  by (simp_all add: do_if_def default_prefs_def getCurrentMedia_def new_BackgroundManager_def)

lemma partial_app_facts:
  "hasLastSession partial_app"
  "find (\<lambda>p. preset_name p = ''_last_session'') (presets partial_app) = Some partial_session"
  "currentPrefs partial_app = default_prefs"
  "reader partial_app = new_EpubReader page_container"
  by (simp_all add: partial_app_def loadPresets_def load_prefs_def partial_backend_def
        hasLastSession_def partial_session_def)

lemma partial_app_runs:
  "background_throws partial_session partial_app = False"
  "reader_throws partial_session (reader partial_app) = False"
  "preset_reader partial_session =
     Some \<lparr>r_opacity = Undefined, r_backgroundColor = Undefined, r_textColor = Undefined,
           r_fontFamily = Val ''monospace'', r_fontSize = Undefined, r_readingMode = Undefined,
           r_glassmorphism = Undefined, r_glassBlur = Undefined,
           r_scrollbarTrack = Undefined, r_scrollbarThumb = Undefined\<rparr>"
  by (simp_all add: background_throws_def reader_throws_def partial_session_def)

lemma resumed_app_facts:
  "scrollbarTrack (reader resumed_app) = Val ''transparent''"
  "p_scrollbarTrack (currentPrefs resumed_app) = Val ''#1a1a1a''"
proof -
  have "appearance (reader resumed_app)
          = applied_appearance
              \<lparr>r_opacity = Undefined, r_backgroundColor = Undefined, r_textColor = Undefined,
               r_fontFamily = Val ''monospace'', r_fontSize = Undefined,
               r_readingMode = Undefined, r_glassmorphism = Undefined, r_glassBlur = Undefined,
               r_scrollbarTrack = Undefined, r_scrollbarThumb = Undefined\<rparr>
              (reader partial_app)
        \<and> currentPrefs resumed_app
            = synced_prefs exact_round100 partial_session (currentPrefs partial_app)"
    using init_with_session [OF partial_app_def resumed_app_def partial_app_facts(1)]
          partial_app_facts(2) partial_app_runs
    by auto
  then show "scrollbarTrack (reader resumed_app) = Val ''transparent''"
    "p_scrollbarTrack (currentPrefs resumed_app) = Val ''#1a1a1a''"
    by (simp_all add: appearance_eq applied_appearance_def partial_session_def
          partial_app_facts new_EpubReader_def synced_prefs_def default_prefs_def)
qed

lemma capture_scrollbarTrack:
  "scrollbarTrack (rd_after (buildPresetFromCurrent nm cp w) w')
     = Val (or_str (p_scrollbarTrack cp) ''#1a1a1a'')"
  using capture_rd_after [of nm cp w w']
  by (simp add: appearance_eq prefs_appearance_def)

text \<open>
  C3, as stated, fails.  After \<open>init\<close> without a session snapshot no tint is set (colour
  \<open>null\<close>); capture stores the colour \<open>#000000\<close> for it, and applying the captured
  preset leaves the overlay colour \<open>#000000\<close>.  And the reader section of a captured preset is read
  from the preferences, not from the reader: after a session snapshot that sets no
  scrollbar colours the reader's track is still the constructor's \<open>transparent\<close>, and
  capture and apply make it the \<open>#1a1a1a\<close> of the preferences.
\<close>

theorem capture_apply_changes_state:
  "getCurrentTint (overlayManager started_app) = (Null, Num 0) \<and>
   fst (capture_then_apply ''Mine'' started_app) \<and>
   getCurrentTint (overlayManager (snd (capture_then_apply ''Mine'' started_app)))
     = (Val ''#000000'', Num 0) \<and>
   scrollbarTrack (reader resumed_app) = Val ''transparent'' \<and>
   scrollbarTrack (reader (snd (capture_then_apply ''Mine'' resumed_app))) = Val ''#1a1a1a''"
  by (simp add: capture_scrollbarTrack resumed_app_facts capture_then_apply_eq capture_ov_after
        started_app_facts new_OverlayManager_def getCurrentTint_def Let_def)

lemma night_find:
  "find (\<lambda>p. preset_name p = preset_name (getFallbackPresets ! 2)) (presets started_app)
     = Some (getFallbackPresets ! 2)"
  by (simp add: started_app_facts getFallbackPresets_def)

lemma night_fields:
  "preset_background (getFallbackPresets ! 2) = Some \<lparr>bg_type = Val ''none'', bg_path = Null\<rparr>"
  "preset_overlay (getFallbackPresets ! 2) = Some \<lparr>ov_color = Val ''#1a1a2e'', ov_opacity = Val 0.4\<rparr>"
  "preset_reader (getFallbackPresets ! 2) = Some
         \<lparr>r_opacity = Val 0.85, r_backgroundColor = Val ''#2d2d2d'',
          r_textColor = Val ''#e0e0e0'', r_fontFamily = Val ''serif'', r_fontSize = Val 20,
          r_readingMode = Val ''paginated'', r_glassmorphism = Val False, r_glassBlur = Val 8,
          r_scrollbarTrack = Val ''#1a1a1a'', r_scrollbarThumb = Val ''#555555''\<rparr>"
  by (simp_all add: getFallbackPresets_def)

lemma night_app_eq:
  "night_app =
     started_app
       \<lparr>bgManager := clearMedia (bgManager started_app),
        overlayManager := setTint (Val ''#1a1a2e'') (Num 0.4) new_OverlayManager,
        reader := rd_after (getFallbackPresets ! 2) started_app,
        currentPreset := Some (getFallbackPresets ! 2),
        currentPrefs := synced_prefs exact_round100 (getFallbackPresets ! 2) default_prefs\<rparr>"
proof -
  have t: "\<not> background_throws (getFallbackPresets ! 2) started_app"
    "\<not> reader_throws (getFallbackPresets ! 2) (reader started_app)"
    by (simp_all add: background_throws_def reader_throws_def night_fields pick_def)
  have g: "bg_after (getFallbackPresets ! 2) started_app = clearMedia (bgManager started_app)"
    by (simp add: bg_after_def night_fields)
  have v: "ov_after (getFallbackPresets ! 2) started_app
             = setTint (Val ''#1a1a2e'') (Num 0.4) new_OverlayManager"
    by (simp add: ov_after_def night_fields started_app_facts)
  show ?thesis
    unfolding night_app_def preset_clicked_def applyPreset_cached [OF night_find] apply_found_eq
    by (simp add: t g v started_app_facts assign_extract)
qed

lemma night_app_facts:
  "media_consistent (toLowerCase night_app) (bgManager night_app)"
  "tint_in_range (overlayManager night_app)"
  "getCurrentTint (overlayManager night_app) = (Val ''#1a1a2e'', Num 0.4)"
  "appearance (reader night_app) = prefs_appearance (currentPrefs night_app)"
  "getCurrentMedia (bgManager night_app) = (Null, None)"
  "fontSize (reader night_app) = Num 20"
proof -
  show "media_consistent (toLowerCase night_app) (bgManager night_app)"
    by (simp add: night_app_eq media_consistent_kept)
  show "tint_in_range (overlayManager night_app)"
    by (simp add: night_app_eq tint_in_range_def Let_def)
  show "getCurrentTint (overlayManager night_app) = (Val ''#1a1a2e'', Num 0.4)"
    by (simp add: night_app_eq getCurrentTint_def Let_def)
  show "getCurrentMedia (bgManager night_app) = (Null, None)"
    by (simp add: night_app_eq getCurrentMedia_def clearMedia_def hideAll_def)
  have r: "appearance (reader night_app)
             = (Num 0.85, ''#2d2d2d'', ''#e0e0e0'', Val ''serif'', Num 20, ''paginated'',
                Val False, Num 8, Val ''#1a1a1a'', Val ''#555555'')"
    by (simp add: night_app_eq rd_after_appearance [OF night_fields(3)] applied_appearance_def)
  have c: "prefs_appearance (synced_prefs exact_round100 (getFallbackPresets ! 2) default_prefs)
             = (Num 0.85, ''#2d2d2d'', ''#e0e0e0'', Val ''serif'', Num 20, ''paginated'',
                Val False, Num 8, Val ''#1a1a1a'', Val ''#555555'')"
    by (simp add: synced_prefs_def night_fields prefs_appearance_def exact_round100_def
          math_round_def)
  show "appearance (reader night_app) = prefs_appearance (currentPrefs night_app)"
    unfolding r by (simp add: night_app_eq c)
  show "fontSize (reader night_app) = Num 20"
    using r by (simp add: appearance_eq)
qed

text \<open>
  C3, amended.  Capturing the current state and applying the captured preset at once
  succeeds and leaves the preferences alone.  It sets the reader's appearance to the one
  the preferences describe, so every reader field is restored when the reader shows what
  the preferences say.  The background media (path and type) is restored.  The overlay
  opacity is restored, and the overlay colour is restored when a tint is set; with no
  tint set the colour becomes \<open>#000000\<close>, at the same opacity 0.  (The background and
  overlay parts are for states that keep the two invariants of the state holders.)
\<close>

theorem capture_apply_roundtrip:
  assumes "w' = snd (capture_then_apply nm w)"
  shows
    "fst (capture_then_apply nm w)
     \<and> currentPrefs w' = currentPrefs w
     \<and> appearance (reader w') = prefs_appearance (currentPrefs w)
     \<and> (appearance (reader w) = prefs_appearance (currentPrefs w) \<longrightarrow>
          appearance (reader w') = appearance (reader w))
     \<and> (media_consistent (toLowerCase w) (bgManager w) \<longrightarrow>
          getCurrentMedia (bgManager w') = getCurrentMedia (bgManager w))
     \<and> (tint_in_range (overlayManager w) \<longrightarrow>
          currentOpacity (overlayManager w') = currentOpacity (overlayManager w)
          \<and> currentColor (overlayManager w')
              = Val (or_str (currentColor (overlayManager w)) ''#000000''))
     \<and> (tint_in_range (overlayManager w) \<and> truthy_str (currentColor (overlayManager w)) \<longrightarrow>
          getCurrentTint (overlayManager w') = getCurrentTint (overlayManager w))"
proof -
  have t: "tint_in_range (overlayManager w) \<Longrightarrow>
       getCurrentTint (overlayManager w')
         = (Val (or_str (currentColor (overlayManager w)) ''#000000''),
            currentOpacity (overlayManager w))"
    using tint_roundtrip [of "overlayManager w"]
    by (simp add: assms capture_then_apply_eq capture_ov_after)
  have m: "media_consistent (toLowerCase w) (bgManager w) \<Longrightarrow>
       getCurrentMedia (bgManager w') = getCurrentMedia (bgManager w)"
    using media_roundtrip [of "toLowerCase w" "bgManager w" "isTauri w"]
    by (simp add: assms capture_then_apply_eq capture_bg_after)
  have r: "appearance (reader w') = prefs_appearance (currentPrefs w)"
    by (simp add: assms capture_then_apply_eq capture_rd_after)
  have c: "currentPrefs w' = currentPrefs w" "fst (capture_then_apply nm w)"
    by (simp_all add: assms capture_then_apply_eq)
  show ?thesis
    using t m r c by (auto simp add: getCurrentTint_def truthy_or_str)
qed

theorem capture_apply_roundtrip_witness:
  "appearance (reader night_app) = prefs_appearance (currentPrefs night_app) \<and>
   media_consistent (toLowerCase night_app) (bgManager night_app) \<and>
   tint_in_range (overlayManager night_app) \<and>
   truthy_str (currentColor (overlayManager night_app)) \<and>
   fst (capture_then_apply ''Mine'' night_app) \<and>
   appearance (reader (snd (capture_then_apply ''Mine'' night_app))) = appearance (reader night_app) \<and>
   getCurrentMedia (bgManager (snd (capture_then_apply ''Mine'' night_app))) = (Null, None) \<and>
   getCurrentTint (overlayManager (snd (capture_then_apply ''Mine'' night_app)))
     = (Val ''#1a1a2e'', Num 0.4)"
proof -
  have c: "truthy_str (currentColor (overlayManager night_app))"
    using night_app_facts(3) by (simp add: getCurrentTint_def)
  show ?thesis
    using capture_apply_roundtrip [OF refl, of "''Mine''" night_app] night_app_facts c
    by simp
qed

end
